theory Spec2Isabelle
  imports Main "HOL-Library.Word"
begin

section \<open>Live transcoding: pkg/ffmpeg/stream\_transcode.go\<close>

text \<open>
  The theory embeds the three stream formats, \<open>TranscodeOptions.makeStreamArgs\<close>,
  \<open>StreamManager.getTranscodeStream\<close> (with the goroutine it starts and the handler it
  returns) and \<open>StreamManager.ServeTranscode\<close>.

  Scope of the model. Pointers are taken to be valid: \<open>sm\<close>, its configuration and
  \<open>options.VideoFile\<close> are dereferenced unconditionally by the code, the last one first in
  \<open>ServeTranscode\<close>, so a request without a file panics before anything modelled here
  happens. \<open>NewStreamRequestContext\<close>, \<open>lockManager.ReadLock\<close> and
  \<open>ctx.AttachCommand\<close> are calls into files that are not at hand; the source passes them
  the writer and the command only to tie their lifetime to the request, and the model leaves them
  out.
\<close>

subsection \<open>Values of the request\<close>

text \<open>
  \<open>StartTime\<close> is a \<open>float64\<close>. The only thing the code does with it is compare it with
  zero and hand it on, so the value is kept as its IEEE 754 fields. A double is zero (plus or
  minus) exactly when exponent and fraction are both zero; every other value, NaN included,
  compares unequal to \<open>0\<close>.
\<close>

datatype float64 = Float64 (sign: bool) (exponent: "11 word") (fraction: "52 word")

definition float64_is_zero :: "float64 \<Rightarrow> bool" where
  "float64_is_zero f = (exponent f = 0 \<and> fraction f = 0)"

type_synonym Args = "string list"

text \<open>
  Modelled from the spec: the \<open>VideoFilter\<close> type, whose declaration is in a file that is not
  at hand. Section 4.1 knows two filters: the no-op (the zero value that \<open>makeStreamArgs\<close>
  declares with \<open>var videoFilter VideoFilter\<close>) and the one that "scales down to" a target
  resolution.
\<close>

datatype VideoFilter = NoFilter | Scale int

text \<open>
  The codec, container and log level constants that the source names; their declarations are
  not at hand, only their names are used.
\<close>

datatype VideoCodec = VideoCodecLibX264 | VideoCodecVP9 | VideoCodecCopy
datatype AudioCodec = AudioCodecLibOpus
datatype Format = FormatMP4 | FormatWebm | FormatMatroska
datatype LogLevel = LogLevelError

record StreamFormat =
  MimeType :: string
  Args :: "VideoFilter \<Rightarrow> bool \<Rightarrow> Args"

record VideoFile =
  Path :: string
  AudioCodec :: string
  Width :: int
  Height :: int

record TranscodeOptions =
  StreamType :: StreamFormat
  VideoFile :: VideoFile
  Resolution :: string
  StartTime :: float64

subsection \<open>The parts of the repository that are not at hand\<close>

text \<open>
  \<open>stream_transcode.go\<close> builds its arguments with the methods of \<open>Args\<close>
  (\<open>LogLevel\<close>, \<open>Seek\<close>, \<open>Input\<close>, \<open>Output\<close>, \<open>VideoCodec\<close>, \<open>AudioCodec\<close>,
  \<open>VideoFilter\<close>, \<open>SkipAudio\<close>, \<open>Format\<close>), asks \<open>ProbeAudioCodec\<close> about the audio
  track and \<open>GetMaxResolution\<close> about a resolution name. None of these is among the sources.
  What each of them contributes is a parameter of the model, collected in one record:
  the tokens that a builder method puts on the command line, the answer of the audio probe, the
  number behind a resolution name, and the number that the spec calls the "source resolution" of
  a width and a height.
\<close>

record pkg =
  emit_LogLevel :: "LogLevel \<Rightarrow> string list"
  emit_Seek :: "float64 \<Rightarrow> string list"
  emit_Input :: "string \<Rightarrow> string list"
  emit_Output :: "string \<Rightarrow> string list"
  emit_VideoCodec :: "VideoCodec \<Rightarrow> string list"
  emit_AudioCodec :: "AudioCodec \<Rightarrow> string list"
  emit_Scale :: "int \<Rightarrow> string list"
  emit_SkipAudio :: "string list"
  emit_Format :: "Format \<Rightarrow> string list"
  ProbeAudioCodec :: "string \<Rightarrow> string"
  MissingUnsupported :: string
  GetMaxResolution :: "string \<Rightarrow> int"
  source_resolution :: "int \<Rightarrow> int \<Rightarrow> int"
  MimeMp4Video :: string
  MimeWebmVideo :: string
  MimeMkvVideo :: string

text \<open>
  The builder methods of \<open>Args\<close> are modelled from the spec. Section 4.1 describes the
  result as an ordered sequence in which every rule "emits" or "inserts" its flags after what is
  already there, and the source uses each method as \<open>args = args.M(x)\<close>, next to plain
  \<open>append\<close>. So each method appends the tokens of its option to the receiver.
\<close>

text \<open>Modelled from the spec: \<open>Args.LogLevel\<close> appends the log verbosity (section 4.1,
  "set log verbosity").\<close>

definition Args_LogLevel :: "pkg \<Rightarrow> Args \<Rightarrow> LogLevel \<Rightarrow> Args" where
  "Args_LogLevel p a l = a @ emit_LogLevel p l"

text \<open>Modelled from the spec: \<open>Args.Seek\<close> appends the seek flag of an offset (section 4.1,
  "emit a seek flag").\<close>

definition Args_Seek :: "pkg \<Rightarrow> Args \<Rightarrow> float64 \<Rightarrow> Args" where
  "Args_Seek p a seconds = a @ emit_Seek p seconds"

text \<open>Modelled from the spec: \<open>Args.Input\<close> appends the input-file argument (section 4.1,
  "the input-file argument").\<close>

definition Args_Input :: "pkg \<Rightarrow> Args \<Rightarrow> string \<Rightarrow> Args" where
  "Args_Input p a i = a @ emit_Input p i"

text \<open>Modelled from the spec: \<open>Args.Output\<close> appends the output sink (section 4.1, "the final
  output sink argument").\<close>

definition Args_Output :: "pkg \<Rightarrow> Args \<Rightarrow> string \<Rightarrow> Args" where
  "Args_Output p a out = a @ emit_Output p out"

text \<open>Modelled from the spec: \<open>Args.VideoCodec\<close> appends the video codec of a format
  (section 4.1, "its own fixed codec/quality/flag set").\<close>

definition Args_VideoCodec :: "pkg \<Rightarrow> Args \<Rightarrow> VideoCodec \<Rightarrow> Args" where
  "Args_VideoCodec p a c = a @ emit_VideoCodec p c"

text \<open>Modelled from the spec: \<open>Args.AudioCodec\<close> appends the audio codec of a format
  (section 4.1, "invoking an audio codec").\<close>

definition Args_AudioCodec :: "pkg \<Rightarrow> Args \<Rightarrow> AudioCodec \<Rightarrow> Args" where
  "Args_AudioCodec p a c = a @ emit_AudioCodec p c"

text \<open>Modelled from the spec: \<open>Args.SkipAudio\<close> appends the explicit "no audio" flag
  (section 4.1).\<close>

definition Args_SkipAudio :: "pkg \<Rightarrow> Args \<Rightarrow> Args" where
  "Args_SkipAudio p a = a @ emit_SkipAudio p"

text \<open>Modelled from the spec: \<open>Args.Format\<close> appends the container of a format
  (section 3, "container").\<close>

definition Args_Format :: "pkg \<Rightarrow> Args \<Rightarrow> Format \<Rightarrow> Args" where
  "Args_Format p a f = a @ emit_Format p f"

text \<open>
  Modelled from the spec: the tokens of a video filter. Section 4.1: when the filter is a no-op,
  "omit scaling flags entirely"; otherwise they are the scaling flags of the target.
\<close>

definition filter_tokens :: "pkg \<Rightarrow> VideoFilter \<Rightarrow> string list" where
  "filter_tokens p vf = (case vf of NoFilter \<Rightarrow> [] | Scale n \<Rightarrow> emit_Scale p n)"

text \<open>Modelled from the spec: \<open>Args.VideoFilter\<close> appends the tokens of the filter.\<close>

definition Args_VideoFilter :: "pkg \<Rightarrow> Args \<Rightarrow> VideoFilter \<Rightarrow> Args" where
  "Args_VideoFilter p a vf = a @ filter_tokens p vf"

text \<open>
  Modelled from the spec: \<open>VideoFilter.ScaleMax\<close>. Section 4.1: "compute a video filter that
  scales down to the lesser of (source resolution, requested override if present, else
  configured maximum), never scales up; if source is already within bounds, the filter is a
  no-op". The caller has already chosen between override and configured maximum, and passes
  the result as \<open>maxSize\<close>.
\<close>

definition ScaleMax :: "pkg \<Rightarrow> VideoFilter \<Rightarrow> int \<Rightarrow> int \<Rightarrow> int \<Rightarrow> VideoFilter" where
  "ScaleMax p f inputWidth inputHeight maxSize =
     (if maxSize < source_resolution p inputWidth inputHeight
      then Scale (min (source_resolution p inputWidth inputHeight) maxSize)
      else f)"

subsection \<open>The three stream formats\<close>

definition StreamTypeMP4 :: "pkg \<Rightarrow> StreamFormat" where
  "StreamTypeMP4 p = \<lparr>
     MimeType = MimeMp4Video p,
     Args = (\<lambda>videoFilter videoOnly.
       let args = [];
           args = Args_VideoCodec p args VideoCodecLibX264;
           args = args @ [''-movflags'', ''frag_keyframe+empty_moov'',
                          ''-pix_fmt'', ''yuv420p'',
                          ''-preset'', ''veryfast'',
                          ''-crf'', ''25''];
           args = Args_VideoFilter p args videoFilter;
           args = (if videoOnly then Args_SkipAudio p args else args @ [''-ac'', ''2'']);
           args = Args_Format p args FormatMP4
       in args) \<rparr>"

definition StreamTypeWEBM :: "pkg \<Rightarrow> StreamFormat" where
  "StreamTypeWEBM p = \<lparr>
     MimeType = MimeWebmVideo p,
     Args = (\<lambda>videoFilter videoOnly.
       let args = [];
           args = Args_VideoCodec p args VideoCodecVP9;
           args = args @ [''-pix_fmt'', ''yuv420p'',
                          ''-deadline'', ''realtime'',
                          ''-cpu-used'', ''5'',
                          ''-row-mt'', ''1'',
                          ''-crf'', ''30'',
                          ''-b:v'', ''0''];
           args = Args_VideoFilter p args videoFilter;
           args = (if videoOnly then Args_SkipAudio p args else args @ [''-ac'', ''2'']);
           args = Args_Format p args FormatWebm
       in args) \<rparr>"

definition StreamTypeMKV :: "pkg \<Rightarrow> StreamFormat" where
  "StreamTypeMKV p = \<lparr>
     MimeType = MimeMkvVideo p,
     Args = (\<lambda>videoFilter videoOnly.
       let args = [];
           args = Args_VideoCodec p args VideoCodecCopy;
           args = (if videoOnly then Args_SkipAudio p args
                   else (let args = Args_AudioCodec p args AudioCodecLibOpus
                         in args @ [''-b:a'', ''96k'',
                                    ''-vbr'', ''on'',
                                    ''-ac'', ''2'']));
           args = Args_Format p args FormatMatroska
       in args) \<rparr>"

subsection \<open>Errors and the log\<close>

text \<open>
  A Go \<open>error\<close> value, as far as this file looks at one: its dynamic type, the text that
  \<open>Error()\<close> returns, and the error that \<open>Unwrap()\<close> returns, if any.
  \<open>ErrorString\<close> is what \<open>errors.New\<close> makes, \<open>Errno n\<close> is \<open>syscall.Errno(n)\<close>,
  \<open>ExitError\<close> is \<open>*exec.ExitError\<close>, and \<open>OtherError\<close> stands for every other type
  (\<open>*net.OpError\<close>, \<open>*os.SyscallError\<close>, \<open>*fs.PathError\<close>, \<open>*exec.Error\<close>, ...).
\<close>

datatype error_kind = ErrorString | Errno nat | ExitError | OtherError

datatype error = GoError (kind: error_kind) (Error: string) (Unwrap: "error option")

definition errors_New :: "string \<Rightarrow> error" where
  "errors_New text = GoError ErrorString text None"

definition EPIPE :: nat where
  "EPIPE = 32"

text \<open>
  \<open>errors.Is(err, syscall.Errno(n))\<close>: some error of the chain is that errno.
  (\<open>Errno.Is\<close> answers only for the portable \<open>oserror\<close> targets, never for another errno.)
\<close>

fun errors_Is :: "error \<Rightarrow> nat \<Rightarrow> bool" where
  "errors_Is (GoError k text u) n =
     (if k = Errno n then True
      else (case u of None \<Rightarrow> False | Some e \<Rightarrow> errors_Is e n))"

text \<open>\<open>errors.As(err, &exitError)\<close> with \<open>exitError\<close> of type \<open>*exec.ExitError\<close>.\<close>

fun errors_As_ExitError :: "error \<Rightarrow> bool" where
  "errors_As_ExitError (GoError k text u) =
     (if k = ExitError then True
      else (case u of None \<Rightarrow> False | Some e \<Rightarrow> errors_As_ExitError e))"

text \<open>\<open>strings.Join(elems, sep)\<close>.\<close>

fun strings_Join :: "string list \<Rightarrow> string \<Rightarrow> string" where
  "strings_Join [] sep = []"
| "strings_Join [x] sep = x"
| "strings_Join (x # y # ys) sep = x @ sep @ strings_Join (y # ys) sep"

text \<open>
  A log line is kept as the call that wrote it: the level, the format string of the source and
  the rendered arguments (\<open>%v\<close> of an error is its \<open>Error()\<close> text).
\<close>

datatype log_entry = Errorf string "string list" | Warnf string "string list"

subsection \<open>The HTTP response writer\<close>

text \<open>
  \<open>http.ResponseWriter\<close> as net/http documents it. \<open>Header\<close> is the map the handler edits;
  \<open>WriteHeader\<close> commits a status together with the header map of that moment, once: a second
  call changes nothing. \<open>Write\<close> commits status 200 first if nothing is committed yet.
  \<open>calls\<close> records the methods that the code invoked, in order.

  The client side is a script: \<open>conn = None\<close> is a connection that takes everything;
  \<open>conn = Some (n, e)\<close> takes \<open>n\<close> more bytes, and the \<open>Write\<close> that goes beyond them
  returns \<open>e\<close> after a short write. \<open>flusher\<close> says whether the writer implements
  \<open>http.Flusher\<close>.
\<close>

datatype call = Call_Header_Set string string | Call_WriteHeader nat | Call_Write string | Call_Flush

record ResponseWriter =
  Header :: "string \<rightharpoonup> string"
  status :: "nat option"
  sent_header :: "string \<rightharpoonup> string"
  body :: string
  calls :: "call list"
  conn :: "(nat \<times> error) option"
  flusher :: bool

definition StatusOK :: nat where
  "StatusOK = 200"

definition StatusBadRequest :: nat where
  "StatusBadRequest = 400"

definition commit :: "ResponseWriter \<Rightarrow> nat \<Rightarrow> ResponseWriter" where
  "commit w code =
     (if status w = None then w\<lparr>status := Some code, sent_header := Header w\<rparr> else w)"

definition Header_Set :: "ResponseWriter \<Rightarrow> string \<Rightarrow> string \<Rightarrow> ResponseWriter" where
  "Header_Set w k v = w\<lparr>Header := (Header w)(k \<mapsto> v), calls := calls w @ [Call_Header_Set k v]\<rparr>"

definition WriteHeader :: "ResponseWriter \<Rightarrow> nat \<Rightarrow> ResponseWriter" where
  "WriteHeader w code = commit (w\<lparr>calls := calls w @ [Call_WriteHeader code]\<rparr>) code"

definition Write :: "ResponseWriter \<Rightarrow> string \<Rightarrow> ResponseWriter \<times> error option" where
  "Write w bs =
     (let w = commit (w\<lparr>calls := calls w @ [Call_Write bs]\<rparr>) StatusOK
      in case conn w of
           None \<Rightarrow> (w\<lparr>body := body w @ bs\<rparr>, None)
         | Some (n, e) \<Rightarrow>
             if length bs \<le> n
             then (w\<lparr>body := body w @ bs, conn := Some (n - length bs, e)\<rparr>, None)
             else (w\<lparr>body := body w @ take n bs, conn := Some (0, e)\<rparr>, Some e))"

text \<open>
  \<open>w.(http.Flusher).Flush()\<close>: the type assertion panics when the writer is no
  \<open>http.Flusher\<close>; \<open>None\<close> is that panic.
\<close>

definition Flush :: "ResponseWriter \<Rightarrow> ResponseWriter option" where
  "Flush w =
     (if flusher w then Some (commit (w\<lparr>calls := calls w @ [Call_Flush]\<rparr>) StatusOK)
      else None)"

subsection \<open>The encoder process\<close>

text \<open>
  The standard output pipe is the list of what its successive \<open>Read\<close>s return: data, or an
  error other than \<open>io.EOF\<close>; the end of the list is \<open>io.EOF\<close>.
  A command is what \<open>os/exec\<close> shows of it: its argument vector, what \<open>StdoutPipe\<close>,
  \<open>StderrPipe\<close>, \<open>Start\<close> and \<open>Wait\<close> return, and, behind the pipes, the reads of
  standard output and the whole of standard error (\<open>io.ReadAll\<close>, whose error the source
  drops).
\<close>

datatype read = Data string | Fail error

record Cmd =
  CmdArgs :: "string list"
  StdoutPipe :: "error + read list"
  StderrPipe :: "error + string"
  Start :: "error option"
  Wait :: "error option"

text \<open>
  \<open>io.Copy(w, stdout)\<close>, the loop of \<open>io.copyBuffer\<close>: a read that brought bytes is written
  at once; the first write error, or the first read error other than \<open>io.EOF\<close>, ends the copy
  and is returned; \<open>io.EOF\<close> ends it with \<open>nil\<close>. (Where the library takes a shortcut
  through \<open>WriterTo\<close> or \<open>ReaderFrom\<close>, the bytes and the returned error are the same.)
  \<open>io.Copy\<close> itself never flushes.
\<close>

fun io_Copy :: "ResponseWriter \<Rightarrow> read list \<Rightarrow> ResponseWriter \<times> error option" where
  "io_Copy w [] = (w, None)"
| "io_Copy w (Fail e # rs) = (w, Some e)"
| "io_Copy w (Data bs # rs) =
     (if bs = [] then io_Copy w rs
      else (case Write w bs of
              (w', Some e) \<Rightarrow> (w', Some e)
            | (w', None) \<Rightarrow> io_Copy w' rs))"

subsection \<open>Configuration and stream manager\<close>

text \<open>
  The configuration getters return fields. \<open>encoder\<close> is \<open>sm.encoder.Command(ctx, args)\<close>:
  the command that the encoder binary makes of an argument sequence.
\<close>

record Config =
  MaxStreamingTranscodeSize :: string
  LiveTranscodeInputArgs :: "string list"
  LiveTranscodeOutputArgs :: "string list"

record StreamManager =
  config :: Config
  encoder :: "Args \<Rightarrow> Cmd"

subsection \<open>makeStreamArgs\<close>

definition makeStreamArgs :: "pkg \<Rightarrow> StreamManager \<Rightarrow> TranscodeOptions \<Rightarrow> Args" where
  "makeStreamArgs p sm opts =
     (let maxTranscodeSize = GetMaxResolution p (MaxStreamingTranscodeSize (config sm));
          maxTranscodeSize = (if Resolution opts \<noteq> ''''
                              then GetMaxResolution p (Resolution opts)
                              else maxTranscodeSize);
          extraInputArgs = LiveTranscodeInputArgs (config sm);
          extraOutputArgs = LiveTranscodeOutputArgs (config sm);
          args = [''-hide_banner''];
          args = Args_LogLevel p args LogLevelError;
          args = args @ extraInputArgs;
          args = (if \<not> float64_is_zero (StartTime opts)
                  then Args_Seek p args (StartTime opts) else args);
          args = Args_Input p args (Path (VideoFile opts));
          videoOnly = (ProbeAudioCodec p (AudioCodec (VideoFile opts)) = MissingUnsupported p);
          videoFilter = NoFilter;
          videoFilter = ScaleMax p videoFilter (Width (VideoFile opts)) (Height (VideoFile opts))
                          maxTranscodeSize;
          args = args @ Args (StreamType opts) videoFilter videoOnly;
          args = args @ extraOutputArgs;
          args = Args_Output p args ''pipe:''
      in args)"

subsection \<open>getTranscodeStream and ServeTranscode\<close>

text \<open>
  What serving leaves behind: the response writer, the log lines of the request's own goroutine,
  and whether that goroutine panicked.
\<close>

record Served =
  resp :: ResponseWriter
  logs :: "log_entry list"
  panicked :: bool

text \<open>
  The goroutine that \<open>getTranscodeStream\<close> starts with \<open>go func() { ... }()\<close>. It reads all of
  standard error, waits for the process and decides whether to log; it has no access to the
  response writer, so its whole effect is the list of log lines it writes.
\<close>

definition stderr_goroutine :: "Cmd \<Rightarrow> string \<Rightarrow> log_entry list" where
  "stderr_goroutine cmd stderr =
     (let errStr = stderr;
          errCmd = Wait cmd;
          e = errStr;
          err = (if e \<noteq> '''' then Some (errors_New e) else errCmd)
      in case err of
           None \<Rightarrow> []
         | Some er \<Rightarrow>
             if \<not> errors_As_ExitError er
             then [Errorf ''[transcode] ffmpeg error when running command <%s>: %v''
                     [strings_Join (CmdArgs cmd) '' '', Error er]]
             else [])"

text \<open>The handler closure, with the \<open>mimeType\<close> and \<open>stdout\<close> it captures.\<close>

definition stream_handler :: "string \<Rightarrow> read list \<Rightarrow> ResponseWriter \<Rightarrow> Served" where
  "stream_handler mimeType stdout w =
     (let w = Header_Set w ''Content-Type'' mimeType;
          w = WriteHeader w StatusOK;
          (w, err) = io_Copy w stdout;
          lg = (case err of
                  None \<Rightarrow> []
                | Some e \<Rightarrow>
                    if \<not> errors_Is e EPIPE
                    then [Errorf ''[transcode] error serving transcoded video file: %v'' [Error e]]
                    else [])
      in case Flush w of
           None \<Rightarrow> \<lparr>resp = w, logs = lg, panicked = True\<rparr>
         | Some w' \<Rightarrow> \<lparr>resp = w', logs = lg, panicked = False\<rparr>)"

text \<open>
  The result of \<open>getTranscodeStream\<close>: the handler or the error, the log lines written before
  it returns, and the log lines of the goroutine it started (\<open>None\<close> when it returned before
  starting one).
\<close>

record Stream =
  result :: "error + (ResponseWriter \<Rightarrow> Served)"
  stream_logs :: "log_entry list"
  goroutine_logs :: "log_entry list option"

definition getTranscodeStream :: "pkg \<Rightarrow> StreamManager \<Rightarrow> TranscodeOptions \<Rightarrow> Stream" where
  "getTranscodeStream p sm options =
     (let args = makeStreamArgs p sm options;
          cmd = encoder sm args
      in case StdoutPipe cmd of
           Inl err \<Rightarrow>
             \<lparr>result = Inl err,
              stream_logs = [Errorf ''[transcode] ffmpeg stdout not available: %v'' [Error err]],
              goroutine_logs = None\<rparr>
         | Inr stdout \<Rightarrow>
             (case StderrPipe cmd of
                Inl err \<Rightarrow>
                  \<lparr>result = Inl err,
                   stream_logs = [Errorf ''[transcode] ffmpeg stderr not available: %v'' [Error err]],
                   goroutine_logs = None\<rparr>
              | Inr stderr \<Rightarrow>
                  (case Start cmd of
                     Some err \<Rightarrow> \<lparr>result = Inl err, stream_logs = [], goroutine_logs = None\<rparr>
                   | None \<Rightarrow>
                       \<lparr>result = Inr (stream_handler (MimeType (StreamType options)) stdout),
                        stream_logs = [],
                        goroutine_logs = Some (stderr_goroutine cmd stderr)\<rparr>)))"

text \<open>
  \<open>ServeTranscode\<close>: the response writer and the logs of the request's goroutine, and
  separately the logs of the goroutine that drains standard error.
\<close>

record Outcome =
  served :: Served
  background :: "log_entry list option"

definition ServeTranscode ::
  "pkg \<Rightarrow> StreamManager \<Rightarrow> ResponseWriter \<Rightarrow> TranscodeOptions \<Rightarrow> Outcome" where
  "ServeTranscode p sm w options =
     (let s = getTranscodeStream p sm options
      in case result s of
           Inl err \<Rightarrow>
             (let lg = stream_logs s @ [Errorf ''[transcode] error transcoding video file: %v'' [Error err]];
                  w = WriteHeader w StatusBadRequest;
                  (w, werr) = Write w (Error err);
                  lg = (case werr of
                          None \<Rightarrow> lg
                        | Some e \<Rightarrow> lg @ [Warnf ''[transcode] error writing response: %v'' [Error e]])
              in \<lparr>served = \<lparr>resp = w, logs = lg, panicked = False\<rparr>, background = goroutine_logs s\<rparr>)
         | Inr handler \<Rightarrow>
             (let r = handler w
              in \<lparr>served = r\<lparr>logs := stream_logs s @ logs r\<rparr>, background = goroutine_logs s\<rparr>))"

subsection \<open>Notions used in the statements about the arguments\<close>

text \<open>
  The effective maximum of a request: the maximum of the request's resolution override when
  there is one, else the configured maximum.
\<close>

definition effective_max :: "pkg \<Rightarrow> StreamManager \<Rightarrow> TranscodeOptions \<Rightarrow> int" where
  "effective_max p sm opts =
     (if Resolution opts \<noteq> '''' then GetMaxResolution p (Resolution opts)
      else GetMaxResolution p (MaxStreamingTranscodeSize (config sm)))"

text \<open>The source resolution of the request's file.\<close>

definition source_size :: "pkg \<Rightarrow> TranscodeOptions \<Rightarrow> int" where
  "source_size p opts = source_resolution p (Width (VideoFile opts)) (Height (VideoFile opts))"

text \<open>The audio codec of the request's file is absent or unsupported.\<close>

definition video_only :: "pkg \<Rightarrow> TranscodeOptions \<Rightarrow> bool" where
  "video_only p opts = (ProbeAudioCodec p (AudioCodec (VideoFile opts)) = MissingUnsupported p)"

text \<open>
  The arguments up to and including the input file, and those after the format's own flags.
\<close>

definition input_section :: "pkg \<Rightarrow> StreamManager \<Rightarrow> TranscodeOptions \<Rightarrow> Args" where
  "input_section p sm opts =
     [''-hide_banner''] @ emit_LogLevel p LogLevelError @ LiveTranscodeInputArgs (config sm)
       @ (if float64_is_zero (StartTime opts) then [] else emit_Seek p (StartTime opts))
       @ emit_Input p (Path (VideoFile opts))"

definition output_section :: "pkg \<Rightarrow> StreamManager \<Rightarrow> Args" where
  "output_section p sm = LiveTranscodeOutputArgs (config sm) @ emit_Output p ''pipe:''"

subsection \<open>An instance to evaluate the model on\<close>

text \<open>
  One choice for the parameters, along the lines of the ffmpeg command line. Numbers are written
  in decimal; a seek offset is written by its sign, exponent and fraction fields.
\<close>

fun dec :: "nat \<Rightarrow> string" where
  "dec n = (if n < 10 then [''0123456789'' ! n]
            else dec (n div 10) @ [''0123456789'' ! (n mod 10)])"

declare dec.simps [simp del]

definition ffmpeg_cli :: pkg where
  "ffmpeg_cli = \<lparr>
     emit_LogLevel = (\<lambda>l. [''-v'', ''error'']),
     emit_Seek = (\<lambda>t. [''-ss'', (if sign t then ''-'' else ''+'') @ dec (unat (exponent t))
                                   @ '':'' @ dec (unat (fraction t))]),
     emit_Input = (\<lambda>i. [''-i'', i]),
     emit_Output = (\<lambda>out. [out]),
     emit_VideoCodec = (\<lambda>c. [''-c:v'', (case c of VideoCodecLibX264 \<Rightarrow> ''libx264''
                                          | VideoCodecVP9 \<Rightarrow> ''libvpx-vp9''
                                          | VideoCodecCopy \<Rightarrow> ''copy'')]),
     emit_AudioCodec = (\<lambda>c. [''-c:a'', ''libopus'']),
     emit_Scale = (\<lambda>n. [''-vf'', ''scale='' @ dec (nat n)]),
     emit_SkipAudio = [''-an''],
     emit_Format = (\<lambda>f. [''-f'', (case f of FormatMP4 \<Rightarrow> ''mp4''
                                      | FormatWebm \<Rightarrow> ''webm''
                                      | FormatMatroska \<Rightarrow> ''matroska'')]),
     ProbeAudioCodec = (\<lambda>c. if c = ''aac'' \<or> c = ''opus'' then c else ''''),
     MissingUnsupported = '''',
     GetMaxResolution = (\<lambda>r. if r = ''LOW'' then 240 else if r = ''STANDARD'' then 480
                              else if r = ''FULL_HD'' then 1080 else 2160),
     source_resolution = (\<lambda>w h. min w h),
     MimeMp4Video = ''video/mp4'',
     MimeWebmVideo = ''video/webm'',
     MimeMkvVideo = ''video/x-matroska'' \<rparr>"

text \<open>
  A 1920x1080 file without audio track, requested as MP4 from second 30.5
  (\<open>30.5 = 1.90625 * 2^4\<close>: exponent \<open>1023 + 4\<close>, fraction \<open>0.90625 * 2^52\<close>), under a
  configuration whose maximum is 480.
\<close>

definition example_config :: Config where
  "example_config = \<lparr>
     MaxStreamingTranscodeSize = ''STANDARD'',
     LiveTranscodeInputArgs = [''-threads'', ''2''],
     LiveTranscodeOutputArgs = [''-sn''] \<rparr>"

definition example_file :: VideoFile where
  "example_file = \<lparr>Path = ''/v/a.avi'', AudioCodec = '''', Width = 1920, Height = 1080\<rparr>"

definition example_request :: TranscodeOptions where
  "example_request = \<lparr>
     StreamType = StreamTypeMP4 ffmpeg_cli,
     VideoFile = example_file,
     Resolution = '''',
     StartTime = Float64 False 1027 0xE800000000000 \<rparr>"


subsection \<open>Notions used in the statements about serving\<close>

text \<open>
  The data that a copy of the standard output can write: the non-empty reads before the first
  read error.
\<close>

fun chunks :: "read list \<Rightarrow> string list" where
  "chunks [] = []"
| "chunks (Fail e # rs) = []"
| "chunks (Data bs # rs) = (if bs = [] then chunks rs else bs # chunks rs)"

text \<open>
  The spec's "flushing after every write", read on the calls made on the response writer: each
  \<open>Write\<close> is directly followed by a \<open>Flush\<close>.
\<close>

fun spec_flush_after_every_write :: "call list \<Rightarrow> bool" where
  "spec_flush_after_every_write [] = True"
| "spec_flush_after_every_write (Call_Write bs # Call_Flush # cs) = spec_flush_after_every_write cs"
| "spec_flush_after_every_write (Call_Write bs # cs) = False"
| "spec_flush_after_every_write (c # cs) = spec_flush_after_every_write cs"

text \<open>
  The spec's classification of a finished encoder (section 4.3), in its own words: forced kill
  (caused by our own cancellation; silent), clean exit with stderr content (the text is the
  error), clean exit without stderr and with non-zero status (the exit error is the error),
  clean exit with zero status (success). \<open>spec_error\<close> is the error payload that the spec
  wants reported for an outcome.
\<close>

datatype spec_outcome = ForcedKill | StderrContent string | NonZeroExit error | Success

definition spec_classify :: "bool \<Rightarrow> string \<Rightarrow> error option \<Rightarrow> spec_outcome" where
  "spec_classify killed_by_us stderr exit_error =
     (if killed_by_us then ForcedKill
      else if stderr \<noteq> '''' then StderrContent stderr
      else (case exit_error of Some e \<Rightarrow> NonZeroExit e | None \<Rightarrow> Success))"

fun spec_error :: "spec_outcome \<Rightarrow> string option" where
  "spec_error ForcedKill = None"
| "spec_error (StderrContent s) = Some s"
| "spec_error (NonZeroExit e) = Some (Error e)"
| "spec_error Success = None"

text \<open>The error payloads that the log lines of that goroutine carry.\<close>

fun logged_errors :: "log_entry list \<Rightarrow> string list" where
  "logged_errors [] = []"
| "logged_errors (Errorf f as # ls) = last as # logged_errors ls"
| "logged_errors (Warnf f as # ls) = logged_errors ls"

text \<open>
  The exit errors of an exit status 1 and of a kill. An encoder that starts, writes two chunks
  and nothing to standard error, and ends with exit status 1; one that cannot be started; a
  response writer as a handler receives it; and the errors of a write to a client that has gone
  away, as a broken pipe and as a connection reset.
\<close>

definition exit_status_1 :: error where
  "exit_status_1 = GoError ExitError ''exit status 1'' None"

definition signal_killed :: error where
  "signal_killed = GoError ExitError ''signal: killed'' None"

definition example_encoder :: "Args \<Rightarrow> Cmd" where
  "example_encoder a = \<lparr>
     CmdArgs = ''ffmpeg'' # a,
     StdoutPipe = Inr [Data ''ab'', Data ''cd''],
     StderrPipe = Inr '''',
     Start = None,
     Wait = Some exit_status_1 \<rparr>"

definition example_sm :: StreamManager where
  "example_sm = \<lparr>config = example_config, encoder = example_encoder\<rparr>"

definition start_failure :: error where
  "start_failure = GoError OtherError ''fork/exec /usr/bin/ffmpeg: no such file or directory''
                     (Some (GoError (Errno 2) ''no such file or directory'' None))"

definition failing_sm :: StreamManager where
  "failing_sm = \<lparr>config = example_config,
                  encoder = (\<lambda>a. (example_encoder a)\<lparr>Start := Some start_failure\<rparr>)\<rparr>"

definition new_response :: ResponseWriter where
  "new_response = \<lparr>Header = Map.empty, status = None, sent_header = Map.empty, body = [],
                    calls = [], conn = None, flusher = True\<rparr>"

definition broken_pipe :: error where
  "broken_pipe = GoError OtherError ''write tcp 127.0.0.1:9999: write: broken pipe''
                   (Some (GoError OtherError ''write: broken pipe''
                      (Some (GoError (Errno 32) ''broken pipe'' None))))"

definition connection_reset :: error where
  "connection_reset = GoError OtherError ''write tcp 127.0.0.1:9999: write: connection reset by peer''
                   (Some (GoError OtherError ''write: connection reset by peer''
                      (Some (GoError (Errno 104) ''connection reset by peer'' None))))"


section \<open>The argument builder\<close>

lemmas builder_defs =
  Args_LogLevel_def Args_Seek_def Args_Input_def Args_Output_def Args_VideoCodec_def
  Args_AudioCodec_def Args_SkipAudio_def Args_Format_def Args_VideoFilter_def

text \<open>
  The result of \<open>makeStreamArgs\<close> for any stream format: the input section, what the format
  makes of the computed filter and the video-only flag, the output section.
\<close>

lemma makeStreamArgs_sections:
  "makeStreamArgs p sm opts =
     input_section p sm opts
       @ Args (StreamType opts)
           (ScaleMax p NoFilter (Width (VideoFile opts)) (Height (VideoFile opts))
              (effective_max p sm opts))
           (video_only p opts)
       @ output_section p sm"
  by (simp add: makeStreamArgs_def input_section_def output_section_def effective_max_def
      video_only_def builder_defs Let_def)

lemma ScaleMax_tokens:
  "filter_tokens p (ScaleMax p NoFilter w h m) =
     (if m < source_resolution p w h then emit_Scale p (min (source_resolution p w h) m) else [])"
  by (simp add: ScaleMax_def filter_tokens_def)

lemma Args_MP4:
  "Args (StreamTypeMP4 p) vf vo =
     emit_VideoCodec p VideoCodecLibX264
       @ [''-movflags'', ''frag_keyframe+empty_moov'', ''-pix_fmt'', ''yuv420p'',
          ''-preset'', ''veryfast'', ''-crf'', ''25'']
       @ filter_tokens p vf
       @ (if vo then emit_SkipAudio p else [''-ac'', ''2''])
       @ emit_Format p FormatMP4"
  by (simp add: StreamTypeMP4_def builder_defs Let_def)

lemma Args_WEBM:
  "Args (StreamTypeWEBM p) vf vo =
     emit_VideoCodec p VideoCodecVP9
       @ [''-pix_fmt'', ''yuv420p'', ''-deadline'', ''realtime'', ''-cpu-used'', ''5'',
          ''-row-mt'', ''1'', ''-crf'', ''30'', ''-b:v'', ''0'']
       @ filter_tokens p vf
       @ (if vo then emit_SkipAudio p else [''-ac'', ''2''])
       @ emit_Format p FormatWebm"
  by (simp add: StreamTypeWEBM_def builder_defs Let_def)

lemma Args_MKV:
  "Args (StreamTypeMKV p) vf vo =
     emit_VideoCodec p VideoCodecCopy
       @ (if vo then emit_SkipAudio p
          else emit_AudioCodec p AudioCodecLibOpus @ [''-b:a'', ''96k'', ''-vbr'', ''on'', ''-ac'', ''2''])
       @ emit_Format p FormatMatroska"
  by (simp add: StreamTypeMKV_def builder_defs Let_def)

lemma sections_StreamType [simp]:
  "input_section p sm (opts\<lparr>StreamType := F\<rparr>) = input_section p sm opts"
  "effective_max p sm (opts\<lparr>StreamType := F\<rparr>) = effective_max p sm opts"
  "video_only p (opts\<lparr>StreamType := F\<rparr>) = video_only p opts"
  "source_size p (opts\<lparr>StreamType := F\<rparr>) = source_size p opts"
  by (simp_all add: input_section_def effective_max_def video_only_def source_size_def)


text \<open>
  Claim C7. Every built argument sequence starts with the banner flag and the tokens of the
  error log level; the configured extra input arguments follow and stand before the input file
  (only a seek option can come between them); after the input file come the flags of the stream
  format, then the configured extra output arguments, and last the output, which is always
  \<open>pipe:\<close> and never taken from the request.
\<close>

theorem makeStreamArgs_layout:
  "\<exists>seek fmt.
     makeStreamArgs p sm opts =
       [''-hide_banner''] @ emit_LogLevel p LogLevelError
         @ LiveTranscodeInputArgs (config sm) @ seek @ emit_Input p (Path (VideoFile opts))
         @ fmt
         @ LiveTranscodeOutputArgs (config sm) @ emit_Output p ''pipe:''
     \<and> (seek = [] \<or> seek = emit_Seek p (StartTime opts))
     \<and> fmt = Args (StreamType opts)
               (ScaleMax p NoFilter (Width (VideoFile opts)) (Height (VideoFile opts))
                  (effective_max p sm opts))
               (video_only p opts)"
  by (simp add: makeStreamArgs_sections input_section_def output_section_def)

theorem makeStreamArgs_layout_witness:
  "\<exists>seek fmt.
     makeStreamArgs ffmpeg_cli example_sm example_request =
       [''-hide_banner'', ''-v'', ''error'', ''-threads'', ''2''] @ seek @ [''-i'', ''/v/a.avi'']
         @ fmt @ [''-sn'', ''pipe:'']
     \<and> (seek = [] \<or> seek = [''-ss'', ''+1027:4081387162304512''])
     \<and> fmt = [''-c:v'', ''libx264'', ''-movflags'', ''frag_keyframe+empty_moov'',
               ''-pix_fmt'', ''yuv420p'', ''-preset'', ''veryfast'', ''-crf'', ''25'',
               ''-vf'', ''scale=480'', ''-an'', ''-f'', ''mp4'']"
  using makeStreamArgs_layout [of ffmpeg_cli "example_sm" example_request]
  by (simp add: ffmpeg_cli_def example_sm_def example_config_def example_request_def example_file_def
      effective_max_def video_only_def ScaleMax_def Args_MP4 filter_tokens_def dec.simps)

text \<open>
  Claim C6. With a start time other than zero the arguments hold the seek option of exactly
  that start time, directly before the input file and after the extra input arguments; with a
  start time of zero the input file follows the extra input arguments directly, and no seek
  option is emitted anywhere.
\<close>

theorem makeStreamArgs_seek:
  "makeStreamArgs p sm opts =
     ([''-hide_banner''] @ emit_LogLevel p LogLevelError @ LiveTranscodeInputArgs (config sm))
       @ (if float64_is_zero (StartTime opts) then [] else emit_Seek p (StartTime opts))
       @ emit_Input p (Path (VideoFile opts))
       @ (Args (StreamType opts)
            (ScaleMax p NoFilter (Width (VideoFile opts)) (Height (VideoFile opts))
               (effective_max p sm opts))
            (video_only p opts)
          @ LiveTranscodeOutputArgs (config sm) @ emit_Output p ''pipe:'')"
  by (simp add: makeStreamArgs_sections input_section_def output_section_def)

theorem makeStreamArgs_seek_witness:
  "makeStreamArgs ffmpeg_cli example_sm example_request =
     [''-hide_banner'', ''-v'', ''error'', ''-threads'', ''2'',
      ''-ss'', ''+1027:4081387162304512'', ''-i'', ''/v/a.avi'',
      ''-c:v'', ''libx264'', ''-movflags'', ''frag_keyframe+empty_moov'',
      ''-pix_fmt'', ''yuv420p'', ''-preset'', ''veryfast'', ''-crf'', ''25'',
      ''-vf'', ''scale=480'', ''-an'', ''-f'', ''mp4'', ''-sn'', ''pipe:'']
   \<and> makeStreamArgs ffmpeg_cli example_sm
         (example_request\<lparr>StartTime := Float64 True 0 0\<rparr>) =
     [''-hide_banner'', ''-v'', ''error'', ''-threads'', ''2'', ''-i'', ''/v/a.avi'',
      ''-c:v'', ''libx264'', ''-movflags'', ''frag_keyframe+empty_moov'',
      ''-pix_fmt'', ''yuv420p'', ''-preset'', ''veryfast'', ''-crf'', ''25'',
      ''-vf'', ''scale=480'', ''-an'', ''-f'', ''mp4'', ''-sn'', ''pipe:'']"
  using makeStreamArgs_seek [of ffmpeg_cli "example_sm" example_request]
    makeStreamArgs_seek [of ffmpeg_cli "example_sm"
      "example_request\<lparr>StartTime := Float64 True 0 0\<rparr>"]
  by (simp add: ffmpeg_cli_def example_sm_def example_config_def example_request_def example_file_def
      effective_max_def video_only_def ScaleMax_def Args_MP4 filter_tokens_def
      float64_is_zero_def dec.simps)

lemma video_only_MP4:
  "video_only p opts \<Longrightarrow>
   makeStreamArgs p sm (opts\<lparr>StreamType := StreamTypeMP4 p\<rparr>) =
     input_section p sm opts
       @ emit_VideoCodec p VideoCodecLibX264
       @ [''-movflags'', ''frag_keyframe+empty_moov'', ''-pix_fmt'', ''yuv420p'',
          ''-preset'', ''veryfast'', ''-crf'', ''25'']
       @ (if effective_max p sm opts < source_size p opts
          then emit_Scale p (min (source_size p opts) (effective_max p sm opts)) else [])
       @ emit_SkipAudio p
       @ emit_Format p FormatMP4
       @ output_section p sm"
  by (simp add: makeStreamArgs_sections Args_MP4 ScaleMax_tokens source_size_def)

lemma video_only_WEBM:
  "video_only p opts \<Longrightarrow>
   makeStreamArgs p sm (opts\<lparr>StreamType := StreamTypeWEBM p\<rparr>) =
     input_section p sm opts
       @ emit_VideoCodec p VideoCodecVP9
       @ [''-pix_fmt'', ''yuv420p'', ''-deadline'', ''realtime'', ''-cpu-used'', ''5'',
          ''-row-mt'', ''1'', ''-crf'', ''30'', ''-b:v'', ''0'']
       @ (if effective_max p sm opts < source_size p opts
          then emit_Scale p (min (source_size p opts) (effective_max p sm opts)) else [])
       @ emit_SkipAudio p
       @ emit_Format p FormatWebm
       @ output_section p sm"
  by (simp add: makeStreamArgs_sections Args_WEBM ScaleMax_tokens source_size_def)

lemma video_only_MKV:
  "video_only p opts \<Longrightarrow>
   makeStreamArgs p sm (opts\<lparr>StreamType := StreamTypeMKV p\<rparr>) =
     input_section p sm opts
       @ emit_VideoCodec p VideoCodecCopy
       @ emit_SkipAudio p
       @ emit_Format p FormatMatroska
       @ output_section p sm"
  by (simp add: makeStreamArgs_sections Args_MKV)

lemma video_only_ignores_AudioCodec:
  assumes "video_only p opts"
    and "F = StreamTypeMP4 \<or> F = StreamTypeWEBM \<or> F = StreamTypeMKV"
  shows "makeStreamArgs (p\<lparr>emit_AudioCodec := g\<rparr>) sm
             (opts\<lparr>StreamType := F (p\<lparr>emit_AudioCodec := g\<rparr>)\<rparr>)
         = makeStreamArgs p sm (opts\<lparr>StreamType := F p\<rparr>)"
proof -
  have same: "video_only (p\<lparr>emit_AudioCodec := g\<rparr>) opts"
    "input_section (p\<lparr>emit_AudioCodec := g\<rparr>) sm opts = input_section p sm opts"
    "output_section (p\<lparr>emit_AudioCodec := g\<rparr>) sm = output_section p sm"
    "effective_max (p\<lparr>emit_AudioCodec := g\<rparr>) sm opts = effective_max p sm opts"
    "\<And>vf. filter_tokens (p\<lparr>emit_AudioCodec := g\<rparr>) vf = filter_tokens p vf"
    "\<And>w h m. ScaleMax (p\<lparr>emit_AudioCodec := g\<rparr>) NoFilter w h m = ScaleMax p NoFilter w h m"
    using assms(1)
    by (simp_all add: video_only_def input_section_def output_section_def effective_max_def
        filter_tokens_def ScaleMax_def split: VideoFilter.splits)
  from assms show ?thesis
    by (auto simp add: makeStreamArgs_sections Args_MP4 Args_WEBM Args_MKV same)
qed

text \<open>
  Claim C5. When the audio codec of the file is absent or unsupported, each of the three stream
  formats contributes its video flags, the skip-audio option and its container, and nothing
  else: no audio codec option, no audio bitrate and no channel count. What the audio codec
  option would render to has no influence on the result.
\<close>

theorem makeStreamArgs_video_only:
  assumes "ProbeAudioCodec p (AudioCodec (VideoFile opts)) = MissingUnsupported p"
  shows "makeStreamArgs p sm (opts\<lparr>StreamType := StreamTypeMP4 p\<rparr>) =
           input_section p sm opts
             @ emit_VideoCodec p VideoCodecLibX264
             @ [''-movflags'', ''frag_keyframe+empty_moov'', ''-pix_fmt'', ''yuv420p'',
                ''-preset'', ''veryfast'', ''-crf'', ''25'']
             @ (if effective_max p sm opts < source_size p opts
                then emit_Scale p (min (source_size p opts) (effective_max p sm opts)) else [])
             @ emit_SkipAudio p
             @ emit_Format p FormatMP4
             @ output_section p sm
       \<and> makeStreamArgs p sm (opts\<lparr>StreamType := StreamTypeWEBM p\<rparr>) =
           input_section p sm opts
             @ emit_VideoCodec p VideoCodecVP9
             @ [''-pix_fmt'', ''yuv420p'', ''-deadline'', ''realtime'', ''-cpu-used'', ''5'',
                ''-row-mt'', ''1'', ''-crf'', ''30'', ''-b:v'', ''0'']
             @ (if effective_max p sm opts < source_size p opts
                then emit_Scale p (min (source_size p opts) (effective_max p sm opts)) else [])
             @ emit_SkipAudio p
             @ emit_Format p FormatWebm
             @ output_section p sm
       \<and> makeStreamArgs p sm (opts\<lparr>StreamType := StreamTypeMKV p\<rparr>) =
           input_section p sm opts
             @ emit_VideoCodec p VideoCodecCopy
             @ emit_SkipAudio p
             @ emit_Format p FormatMatroska
             @ output_section p sm
       \<and> (\<forall>g. \<forall>F \<in> {StreamTypeMP4, StreamTypeWEBM, StreamTypeMKV}.
             makeStreamArgs (p\<lparr>emit_AudioCodec := g\<rparr>) sm
                 (opts\<lparr>StreamType := F (p\<lparr>emit_AudioCodec := g\<rparr>)\<rparr>)
             = makeStreamArgs p sm (opts\<lparr>StreamType := F p\<rparr>))"
proof -
  have vo: "video_only p opts"
    using assms by (simp add: video_only_def)
  show ?thesis
    using video_only_MP4 [OF vo] video_only_WEBM [OF vo] video_only_MKV [OF vo]
      video_only_ignores_AudioCodec [OF vo]
    by blast
qed

theorem makeStreamArgs_video_only_witness:
  "makeStreamArgs ffmpeg_cli example_sm
       (example_request\<lparr>StreamType := StreamTypeMP4 ffmpeg_cli\<rparr>) =
     [''-hide_banner'', ''-v'', ''error'', ''-threads'', ''2'',
      ''-ss'', ''+1027:4081387162304512'', ''-i'', ''/v/a.avi'',
      ''-c:v'', ''libx264'', ''-movflags'', ''frag_keyframe+empty_moov'',
      ''-pix_fmt'', ''yuv420p'', ''-preset'', ''veryfast'', ''-crf'', ''25'',
      ''-vf'', ''scale=480'', ''-an'', ''-f'', ''mp4'', ''-sn'', ''pipe:'']
   \<and> makeStreamArgs ffmpeg_cli example_sm
       (example_request\<lparr>StreamType := StreamTypeWEBM ffmpeg_cli\<rparr>) =
     [''-hide_banner'', ''-v'', ''error'', ''-threads'', ''2'',
      ''-ss'', ''+1027:4081387162304512'', ''-i'', ''/v/a.avi'',
      ''-c:v'', ''libvpx-vp9'', ''-pix_fmt'', ''yuv420p'', ''-deadline'', ''realtime'',
      ''-cpu-used'', ''5'', ''-row-mt'', ''1'', ''-crf'', ''30'', ''-b:v'', ''0'',
      ''-vf'', ''scale=480'', ''-an'', ''-f'', ''webm'', ''-sn'', ''pipe:'']
   \<and> makeStreamArgs ffmpeg_cli example_sm
       (example_request\<lparr>StreamType := StreamTypeMKV ffmpeg_cli\<rparr>) =
     [''-hide_banner'', ''-v'', ''error'', ''-threads'', ''2'',
      ''-ss'', ''+1027:4081387162304512'', ''-i'', ''/v/a.avi'',
      ''-c:v'', ''copy'', ''-an'', ''-f'', ''matroska'', ''-sn'', ''pipe:'']"
proof -
  have h: "ProbeAudioCodec ffmpeg_cli (AudioCodec (VideoFile example_request))
             = MissingUnsupported ffmpeg_cli"
    by (simp add: ffmpeg_cli_def example_request_def example_file_def)
  show ?thesis
    using makeStreamArgs_video_only
      [OF h, of "example_sm"]
    by (simp add: ffmpeg_cli_def example_sm_def example_config_def example_request_def example_file_def
        effective_max_def source_size_def input_section_def output_section_def
        float64_is_zero_def dec.simps)
qed


text \<open>
  Claim C4, as the code has it. For the MP4 and WebM formats the arguments hold, after the
  format's video flags, the scale option down to the lesser of source resolution and effective
  maximum when the source exceeds that maximum, and no scaling tokens at all when it does not.
  The MKV format copies the video stream: its arguments never hold a scale option, whatever the
  resolution of the source.
\<close>

theorem makeStreamArgs_scale:
  "makeStreamArgs p sm (opts\<lparr>StreamType := StreamTypeMP4 p\<rparr>) =
     input_section p sm opts
       @ emit_VideoCodec p VideoCodecLibX264
       @ [''-movflags'', ''frag_keyframe+empty_moov'', ''-pix_fmt'', ''yuv420p'',
          ''-preset'', ''veryfast'', ''-crf'', ''25'']
       @ (if effective_max p sm opts < source_size p opts
          then emit_Scale p (min (source_size p opts) (effective_max p sm opts)) else [])
       @ (if video_only p opts then emit_SkipAudio p else [''-ac'', ''2''])
       @ emit_Format p FormatMP4
       @ output_section p sm
   \<and> makeStreamArgs p sm (opts\<lparr>StreamType := StreamTypeWEBM p\<rparr>) =
     input_section p sm opts
       @ emit_VideoCodec p VideoCodecVP9
       @ [''-pix_fmt'', ''yuv420p'', ''-deadline'', ''realtime'', ''-cpu-used'', ''5'',
          ''-row-mt'', ''1'', ''-crf'', ''30'', ''-b:v'', ''0'']
       @ (if effective_max p sm opts < source_size p opts
          then emit_Scale p (min (source_size p opts) (effective_max p sm opts)) else [])
       @ (if video_only p opts then emit_SkipAudio p else [''-ac'', ''2''])
       @ emit_Format p FormatWebm
       @ output_section p sm
   \<and> makeStreamArgs p sm (opts\<lparr>StreamType := StreamTypeMKV p\<rparr>) =
     input_section p sm opts
       @ emit_VideoCodec p VideoCodecCopy
       @ (if video_only p opts then emit_SkipAudio p
          else emit_AudioCodec p AudioCodecLibOpus
                 @ [''-b:a'', ''96k'', ''-vbr'', ''on'', ''-ac'', ''2''])
       @ emit_Format p FormatMatroska
       @ output_section p sm"
  by (simp add: makeStreamArgs_sections Args_MP4 Args_WEBM Args_MKV ScaleMax_tokens
      source_size_def)

text \<open>
  The source of 1920x1080 against a maximum of 480, and the same source against the override
  \<open>FOUR_K\<close>, which the instance takes as 2160: scaled down to 480, and not scaled.
\<close>

theorem makeStreamArgs_scale_witness:
  "makeStreamArgs ffmpeg_cli example_sm
       (example_request\<lparr>StreamType := StreamTypeWEBM ffmpeg_cli\<rparr>) =
     [''-hide_banner'', ''-v'', ''error'', ''-threads'', ''2'',
      ''-ss'', ''+1027:4081387162304512'', ''-i'', ''/v/a.avi'',
      ''-c:v'', ''libvpx-vp9'', ''-pix_fmt'', ''yuv420p'', ''-deadline'', ''realtime'',
      ''-cpu-used'', ''5'', ''-row-mt'', ''1'', ''-crf'', ''30'', ''-b:v'', ''0'',
      ''-vf'', ''scale=480'', ''-an'', ''-f'', ''webm'', ''-sn'', ''pipe:'']
   \<and> makeStreamArgs ffmpeg_cli example_sm
       (example_request\<lparr>Resolution := ''FOUR_K'', StreamType := StreamTypeWEBM ffmpeg_cli\<rparr>) =
     [''-hide_banner'', ''-v'', ''error'', ''-threads'', ''2'',
      ''-ss'', ''+1027:4081387162304512'', ''-i'', ''/v/a.avi'',
      ''-c:v'', ''libvpx-vp9'', ''-pix_fmt'', ''yuv420p'', ''-deadline'', ''realtime'',
      ''-cpu-used'', ''5'', ''-row-mt'', ''1'', ''-crf'', ''30'', ''-b:v'', ''0'',
      ''-an'', ''-f'', ''webm'', ''-sn'', ''pipe:'']"
  using makeStreamArgs_scale [of ffmpeg_cli example_sm example_request]
    makeStreamArgs_scale [of ffmpeg_cli example_sm "example_request\<lparr>Resolution := ''FOUR_K''\<rparr>"]
  by (simp add: ffmpeg_cli_def example_sm_def example_config_def example_request_def
      example_file_def effective_max_def source_size_def video_only_def input_section_def
      output_section_def float64_is_zero_def dec.simps)

text \<open>
  Against claim C4 as stated ("for every format descriptor"): the same source, 1080 against a
  maximum of 480, requested as MKV. The scale option of the instance is \<open>-vf scale=480\<close>;
  the arguments hold no \<open>-vf\<close>.
\<close>

theorem makeStreamArgs_scale_counterexample:
  "effective_max ffmpeg_cli example_sm example_request = 480
   \<and> source_size ffmpeg_cli example_request = 1080
   \<and> emit_Scale ffmpeg_cli 480 = [''-vf'', ''scale=480'']
   \<and> makeStreamArgs ffmpeg_cli example_sm
        (example_request\<lparr>StreamType := StreamTypeMKV ffmpeg_cli\<rparr>) =
      [''-hide_banner'', ''-v'', ''error'', ''-threads'', ''2'',
       ''-ss'', ''+1027:4081387162304512'', ''-i'', ''/v/a.avi'',
       ''-c:v'', ''copy'', ''-an'', ''-f'', ''matroska'', ''-sn'', ''pipe:'']
   \<and> ''-vf'' \<notin> set (makeStreamArgs ffmpeg_cli example_sm
                        (example_request\<lparr>StreamType := StreamTypeMKV ffmpeg_cli\<rparr>))"
  by (simp add: makeStreamArgs_sections Args_MKV ffmpeg_cli_def example_sm_def
      example_config_def example_request_def example_file_def effective_max_def
      source_size_def video_only_def input_section_def output_section_def
      float64_is_zero_def dec.simps)


section \<open>The response writer and the copy\<close>

lemma commit_fields [simp]:
  "body (commit w c) = body w"
  "calls (commit w c) = calls w"
  "conn (commit w c) = conn w"
  "flusher (commit w c) = flusher w"
  "Header (commit w c) = Header w"
  "status (commit w c) = (if status w = None then Some c else status w)"
  "sent_header (commit w c) = (if status w = None then Header w else sent_header w)"
  by (simp_all add: commit_def)

lemma Header_Set_fields [simp]:
  "body (Header_Set w k v) = body w"
  "calls (Header_Set w k v) = calls w @ [Call_Header_Set k v]"
  "conn (Header_Set w k v) = conn w"
  "flusher (Header_Set w k v) = flusher w"
  "Header (Header_Set w k v) = (Header w)(k \<mapsto> v)"
  "status (Header_Set w k v) = status w"
  "sent_header (Header_Set w k v) = sent_header w"
  by (simp_all add: Header_Set_def)

lemma WriteHeader_fields [simp]:
  "body (WriteHeader w c) = body w"
  "calls (WriteHeader w c) = calls w @ [Call_WriteHeader c]"
  "conn (WriteHeader w c) = conn w"
  "flusher (WriteHeader w c) = flusher w"
  "Header (WriteHeader w c) = Header w"
  "status (WriteHeader w c) = (if status w = None then Some c else status w)"
  "sent_header (WriteHeader w c) = (if status w = None then Header w else sent_header w)"
  by (simp_all add: WriteHeader_def)

lemma Write_fields [simp]:
  "calls (fst (Write w bs)) = calls w @ [Call_Write bs]"
  "flusher (fst (Write w bs)) = flusher w"
  "Header (fst (Write w bs)) = Header w"
  "status (fst (Write w bs)) = (if status w = None then Some StatusOK else status w)"
  "sent_header (fst (Write w bs)) = (if status w = None then Header w else sent_header w)"
  by (simp_all add: Write_def Let_def split: option.splits prod.splits)

lemma Write_body_ok:
  "snd (Write w bs) = None \<Longrightarrow> body (fst (Write w bs)) = body w @ bs"
  by (auto simp add: Write_def Let_def split: option.splits prod.splits if_splits)

lemma Write_body_short:
  assumes "snd (Write w bs) = Some e"
  shows "\<exists>n < length bs. body (fst (Write w bs)) = body w @ take n bs"
proof (cases "conn w")
  case None
  with assms show ?thesis by (simp add: Write_def Let_def)
next
  case (Some ne)
  obtain n e' where ne: "ne = (n, e')" by (cases ne)
  with Some assms have "n < length bs" "body (fst (Write w bs)) = body w @ take n bs"
    by (auto simp add: Write_def Let_def split: if_splits)
  then show ?thesis by blast
qed

lemma Write_conn_None:
  "conn w = None \<Longrightarrow> snd (Write w bs) = None \<and> conn (fst (Write w bs)) = None"
  by (simp add: Write_def Let_def)

lemma Write_error:
  "snd (Write w bs) = Some e \<Longrightarrow> \<exists>n. conn w = Some (n, e) \<and> n < length bs"
  by (auto simp add: Write_def Let_def split: option.splits prod.splits if_splits)

lemma io_Copy_kept:
  "flusher (fst (io_Copy w rs)) = flusher w \<and> Header (fst (io_Copy w rs)) = Header w"
proof (induction w rs rule: io_Copy.induct)
  case (3 w bs rs)
  show ?case
  proof (cases "bs = []")
    case True
    with 3 show ?thesis by simp
  next
    case False
    obtain w' r where W: "Write w bs = (w', r)" by (cases "Write w bs")
    then have k: "flusher w' = flusher w" "Header w' = Header w"
      using Write_fields(2,3) [of w bs] by simp_all
    show ?thesis
    proof (cases r)
      case None
      with False W k "3.IH"(2) [OF False W [symmetric]] show ?thesis by simp
    next
      case (Some e)
      with False W k show ?thesis by simp
    qed
  qed
qed simp_all

lemma io_Copy_committed:
  "status w = Some c \<Longrightarrow>
   status (fst (io_Copy w rs)) = Some c \<and> sent_header (fst (io_Copy w rs)) = sent_header w"
proof (induction w rs rule: io_Copy.induct)
  case (3 w bs rs)
  have st: "status (fst (Write w bs)) = Some c" "sent_header (fst (Write w bs)) = sent_header w"
    using "3.prems" by simp_all
  show ?case
  proof (cases "bs = []")
    case True
    with 3 show ?thesis by simp
  next
    case False
    obtain w' r where W: "Write w bs = (w', r)" by (cases "Write w bs")
    with st have st': "status w' = Some c" "sent_header w' = sent_header w" by simp_all
    show ?thesis
    proof (cases r)
      case None
      with False W st' "3.IH"(2) [OF False W [symmetric]] show ?thesis by simp
    next
      case (Some e)
      with False W st' show ?thesis by simp
    qed
  qed
qed simp_all

lemma io_Copy_calls:
  "\<exists>k. calls (fst (io_Copy w rs)) = calls w @ map Call_Write (take k (chunks rs))"
proof (induction w rs rule: io_Copy.induct)
  case (1 w)
  then show ?case by simp
next
  case (2 w e rs)
  then show ?case by simp
next
  case (3 w bs rs)
  show ?case
  proof (cases "bs = []")
    case True
    with 3 show ?thesis by simp
  next
    case False
    obtain w' r where W: "Write w bs = (w', r)" by (cases "Write w bs")
    then have c': "calls w' = calls w @ [Call_Write bs]"
      using Write_fields(1) [of w bs] by simp
    show ?thesis
    proof (cases r)
      case None
      from "3.IH"(2) [OF False W [symmetric]] None
      obtain k where "calls (fst (io_Copy w' rs)) = calls w' @ map Call_Write (take k (chunks rs))"
        by auto
      with False W None c'
      have "calls (fst (io_Copy w (Data bs # rs)))
              = calls w @ map Call_Write (take (Suc k) (chunks (Data bs # rs)))"
        by simp
      then show ?thesis by blast
    next
      case (Some e)
      with False W c'
      have "calls (fst (io_Copy w (Data bs # rs)))
              = calls w @ map Call_Write (take (Suc 0) (chunks (Data bs # rs)))"
        by simp
      then show ?thesis by blast
    qed
  qed
qed

lemma io_Copy_body:
  "\<exists>n. body (fst (io_Copy w rs)) = body w @ take n (concat (chunks rs))"
proof (induction w rs rule: io_Copy.induct)
  case (1 w)
  then show ?case by simp
next
  case (2 w e rs)
  then show ?case by simp
next
  case (3 w bs rs)
  show ?case
  proof (cases "bs = []")
    case True
    with 3 show ?thesis by simp
  next
    case False
    obtain w' r where W: "Write w bs = (w', r)" by (cases "Write w bs")
    show ?thesis
    proof (cases r)
      case None
      with W have b': "body w' = body w @ bs"
        using Write_body_ok [of w bs] by simp
      from "3.IH"(2) [OF False W [symmetric]] None
      obtain n where "body (fst (io_Copy w' rs)) = body w' @ take n (concat (chunks rs))"
        by auto
      with False W None b'
      have "body (fst (io_Copy w (Data bs # rs)))
              = body w @ take (length bs + n) (concat (chunks (Data bs # rs)))"
        by simp
      then show ?thesis by blast
    next
      case (Some e)
      with W obtain n where n: "n < length bs" "body w' = body w @ take n bs"
        using Write_body_short [of w bs e] by auto
      with False W Some
      have "body (fst (io_Copy w (Data bs # rs)))
              = body w @ take n (concat (chunks (Data bs # rs)))"
        by simp
      then show ?thesis by blast
    qed
  qed
qed

text \<open>On a connection that takes everything, the copy writes every chunk.\<close>

lemma io_Copy_conn_None:
  "conn w = None \<Longrightarrow>
   calls (fst (io_Copy w rs)) = calls w @ map Call_Write (chunks rs)
   \<and> body (fst (io_Copy w rs)) = body w @ concat (chunks rs)"
proof (induction w rs rule: io_Copy.induct)
  case (3 w bs rs)
  show ?case
  proof (cases "bs = []")
    case True
    with 3 show ?thesis by simp
  next
    case False
    obtain w' r where W: "Write w bs = (w', r)" by (cases "Write w bs")
    with Write_conn_None [OF "3.prems", of bs] have r: "r = None" and c: "conn w' = None"
      by simp_all
    from W r have b': "body w' = body w @ bs" "calls w' = calls w @ [Call_Write bs]"
      using Write_body_ok [of w bs] Write_fields(1) [of w bs] by simp_all
    from "3.IH"(2) [OF False W [symmetric] r c] False W r b' show ?thesis
      by simp
  qed
qed simp_all


section \<open>Serving\<close>

lemma errors_New_not_ExitError [simp]: "\<not> errors_As_ExitError (errors_New s)"
  by (simp add: errors_New_def)

lemma makeStreamArgs_encoder [simp]:
  "makeStreamArgs p (sm\<lparr>encoder := enc\<rparr>) options = makeStreamArgs p sm options"
  by (simp add: makeStreamArgs_def)

text \<open>The handler, with the copy named.\<close>

lemma stream_handler_copy:
  "stream_handler m rs w =
     (let c = io_Copy (WriteHeader (Header_Set w ''Content-Type'' m) StatusOK) rs;
          lg = (case snd c of
                  None \<Rightarrow> []
                | Some e \<Rightarrow>
                    if errors_Is e EPIPE then []
                    else [Errorf ''[transcode] error serving transcoded video file: %v'' [Error e]])
      in if flusher w
         then \<lparr>resp = commit ((fst c)\<lparr>calls := calls (fst c) @ [Call_Flush]\<rparr>) StatusOK,
               logs = lg, panicked = False\<rparr>
         else \<lparr>resp = fst c, logs = lg, panicked = True\<rparr>)"
  by (simp add: stream_handler_def Flush_def Let_def split_def io_Copy_kept
      split: option.splits)

lemma stream_handler_status:
  assumes "status w = None"
  shows "status (resp (stream_handler m rs w)) = Some StatusOK"
    and "sent_header (resp (stream_handler m rs w)) ''Content-Type'' = Some m"
proof -
  let ?w = "WriteHeader (Header_Set w ''Content-Type'' m) StatusOK"
  have "status ?w = Some StatusOK" "sent_header ?w ''Content-Type'' = Some m"
    using assms by simp_all
  with io_Copy_committed [of ?w StatusOK rs]
  have c: "status (fst (io_Copy ?w rs)) = Some StatusOK"
    "sent_header (fst (io_Copy ?w rs)) ''Content-Type'' = Some m"
    by simp_all
  show "status (resp (stream_handler m rs w)) = Some StatusOK"
    using c by (simp add: stream_handler_copy Let_def)
  show "sent_header (resp (stream_handler m rs w)) ''Content-Type'' = Some m"
    using c by (simp add: stream_handler_copy Let_def)
qed

lemma stream_handler_calls:
  "\<exists>k. calls (resp (stream_handler m rs w)) =
     calls w @ [Call_Header_Set ''Content-Type'' m, Call_WriteHeader StatusOK]
       @ map Call_Write (take k (chunks rs))
       @ (if flusher w then [Call_Flush] else [])"
proof -
  let ?w = "WriteHeader (Header_Set w ''Content-Type'' m) StatusOK"
  obtain k where "calls (fst (io_Copy ?w rs)) = calls ?w @ map Call_Write (take k (chunks rs))"
    using io_Copy_calls [of ?w rs] by blast
  then have "calls (resp (stream_handler m rs w)) =
     calls w @ [Call_Header_Set ''Content-Type'' m, Call_WriteHeader StatusOK]
       @ map Call_Write (take k (chunks rs))
       @ (if flusher w then [Call_Flush] else [])"
    by (simp add: stream_handler_copy Let_def)
  then show ?thesis by blast
qed

lemma stream_handler_body:
  "\<exists>n. body (resp (stream_handler m rs w)) = body w @ take n (concat (chunks rs))"
proof -
  let ?w = "WriteHeader (Header_Set w ''Content-Type'' m) StatusOK"
  obtain n where "body (fst (io_Copy ?w rs)) = body ?w @ take n (concat (chunks rs))"
    using io_Copy_body [of ?w rs] by blast
  then have "body (resp (stream_handler m rs w)) = body w @ take n (concat (chunks rs))"
    by (simp add: stream_handler_copy Let_def)
  then show ?thesis by blast
qed

lemma stream_handler_conn_None:
  assumes "conn w = None"
  shows "calls (resp (stream_handler m rs w)) =
     calls w @ [Call_Header_Set ''Content-Type'' m, Call_WriteHeader StatusOK]
       @ map Call_Write (chunks rs)
       @ (if flusher w then [Call_Flush] else [])"
    and "body (resp (stream_handler m rs w)) = body w @ concat (chunks rs)"
proof -
  let ?w = "WriteHeader (Header_Set w ''Content-Type'' m) StatusOK"
  have "conn ?w = None" using assms by simp
  from io_Copy_conn_None [OF this, of rs]
  have c: "calls (fst (io_Copy ?w rs)) = calls ?w @ map Call_Write (chunks rs)"
    "body (fst (io_Copy ?w rs)) = body ?w @ concat (chunks rs)"
    by simp_all
  show "calls (resp (stream_handler m rs w)) =
     calls w @ [Call_Header_Set ''Content-Type'' m, Call_WriteHeader StatusOK]
       @ map Call_Write (chunks rs)
       @ (if flusher w then [Call_Flush] else [])"
    using c by (simp add: stream_handler_copy Let_def)
  show "body (resp (stream_handler m rs w)) = body w @ concat (chunks rs)"
    using c by (simp add: stream_handler_copy Let_def)
qed

text \<open>
  On a connection that takes \<open>n\<close> more bytes, the copy writes the chunks in order up to and
  including the first one that no longer fits, and the body grows by the first \<open>n\<close> bytes of
  the data.
\<close>

lemma Write_conn_Some:
  assumes "conn w = Some (n, e)"
  shows "length bs \<le> n \<Longrightarrow>
           snd (Write w bs) = None \<and> conn (fst (Write w bs)) = Some (n - length bs, e)
           \<and> body (fst (Write w bs)) = body w @ bs"
    and "n < length bs \<Longrightarrow>
           snd (Write w bs) = Some e \<and> body (fst (Write w bs)) = body w @ take n bs"
  using assms by (simp_all add: Write_def Let_def)

lemma io_Copy_conn_Some:
  "conn w = Some (n, e) \<Longrightarrow>
   (\<exists>k. calls (fst (io_Copy w rs)) = calls w @ map Call_Write (take k (chunks rs))
        \<and> ((k = length (chunks rs) \<and> length (concat (chunks rs)) \<le> n)
           \<or> (0 < k \<and> k \<le> length (chunks rs)
               \<and> length (concat (take (k - 1) (chunks rs))) \<le> n
               \<and> n < length (concat (take k (chunks rs))))))
   \<and> body (fst (io_Copy w rs)) = body w @ take n (concat (chunks rs))"
proof (induction w rs arbitrary: n rule: io_Copy.induct)
  case (1 w)
  then show ?case by simp
next
  case (2 w e' rs)
  then show ?case by simp
next
  case (3 w bs rs)
  show ?case
  proof (cases "bs = []")
    case True
    with 3 show ?thesis by simp
  next
    case False
    obtain w' r where W: "Write w bs = (w', r)" by (cases "Write w bs")
    then have c': "calls w' = calls w @ [Call_Write bs]"
      using Write_fields(1) [of w bs] by simp
    show ?thesis
    proof (cases "length bs \<le> n")
      case fits: True
      from Write_conn_Some(1) [OF "3.prems" fits] W
      have r: "r = None" and cn: "conn w' = Some (n - length bs, e)"
        and b': "body w' = body w @ bs"
        by simp_all
      from "3.IH"(2) [OF False W [symmetric] r cn]
      obtain k where k: "calls (fst (io_Copy w' rs)) = calls w' @ map Call_Write (take k (chunks rs))"
        and P: "(k = length (chunks rs) \<and> length (concat (chunks rs)) \<le> n - length bs)
           \<or> (0 < k \<and> k \<le> length (chunks rs)
               \<and> length (concat (take (k - 1) (chunks rs))) \<le> n - length bs
               \<and> n - length bs < length (concat (take k (chunks rs))))"
        and b: "body (fst (io_Copy w' rs)) = body w' @ take (n - length bs) (concat (chunks rs))"
        by blast
      have calls: "calls (fst (io_Copy w (Data bs # rs)))
                     = calls w @ map Call_Write (take (Suc k) (chunks (Data bs # rs)))"
        using False W r c' k by simp
      have P': "(Suc k = length (chunks (Data bs # rs))
                   \<and> length (concat (chunks (Data bs # rs))) \<le> n)
           \<or> (0 < Suc k \<and> Suc k \<le> length (chunks (Data bs # rs))
               \<and> length (concat (take (Suc k - 1) (chunks (Data bs # rs)))) \<le> n
               \<and> n < length (concat (take (Suc k) (chunks (Data bs # rs)))))"
        using P
      proof
        assume A: "k = length (chunks rs) \<and> length (concat (chunks rs)) \<le> n - length bs"
        with fits have "length bs + length (concat (chunks rs)) \<le> n" by linarith
        with A False show ?thesis by simp
      next
        assume A: "0 < k \<and> k \<le> length (chunks rs)
               \<and> length (concat (take (k - 1) (chunks rs))) \<le> n - length bs
               \<and> n - length bs < length (concat (take k (chunks rs)))"
        then obtain j where j: "k = Suc j" by (cases k) auto
        with A have a1: "length (concat (take j (chunks rs))) \<le> n - length bs"
          and a2: "n - length bs < length (concat (take (Suc j) (chunks rs)))"
          and a3: "Suc j \<le> length (chunks rs)"
          by simp_all
        from a1 fits have b1: "length bs + length (concat (take j (chunks rs))) \<le> n"
          by linarith
        from a2 fits have b2: "n < length bs + length (concat (take (Suc j) (chunks rs)))"
          by linarith
        from j a3 b1 b2 False show ?thesis by simp
      qed
      have body: "body (fst (io_Copy w (Data bs # rs)))
                    = body w @ take n (concat (chunks (Data bs # rs)))"
        using False W r b b' fits by simp
      from calls P' body show ?thesis by blast
    next
      case over: False
      then have lt: "n < length bs" by simp
      from Write_conn_Some(2) [OF "3.prems" lt] W
      have r: "r = Some e" and b': "body w' = body w @ take n bs"
        by simp_all
      have calls: "calls (fst (io_Copy w (Data bs # rs)))
                     = calls w @ map Call_Write (take (Suc 0) (chunks (Data bs # rs)))"
        using False W r c' by simp
      have P': "0 < Suc 0 \<and> Suc 0 \<le> length (chunks (Data bs # rs))
               \<and> length (concat (take (Suc 0 - 1) (chunks (Data bs # rs)))) \<le> n
               \<and> n < length (concat (take (Suc 0) (chunks (Data bs # rs))))"
        using False lt by simp
      have body: "body (fst (io_Copy w (Data bs # rs)))
                    = body w @ take n (concat (chunks (Data bs # rs)))"
        using False W r b' lt by simp
      from calls P' body show ?thesis by blast
    qed
  qed
qed

lemma stream_handler_conn_Some:
  assumes "conn w = Some (n, e)"
  shows "(\<exists>k. calls (resp (stream_handler m rs w)) =
            calls w @ [Call_Header_Set ''Content-Type'' m, Call_WriteHeader StatusOK]
              @ map Call_Write (take k (chunks rs))
              @ (if flusher w then [Call_Flush] else [])
          \<and> ((k = length (chunks rs) \<and> length (concat (chunks rs)) \<le> n)
             \<or> (0 < k \<and> k \<le> length (chunks rs)
                 \<and> length (concat (take (k - 1) (chunks rs))) \<le> n
                 \<and> n < length (concat (take k (chunks rs))))))
       \<and> body (resp (stream_handler m rs w)) = body w @ take n (concat (chunks rs))"
proof -
  let ?w = "WriteHeader (Header_Set w ''Content-Type'' m) StatusOK"
  have "conn ?w = Some (n, e)" using assms by simp
  from io_Copy_conn_Some [OF this, of rs]
  obtain k where k: "calls (fst (io_Copy ?w rs)) = calls ?w @ map Call_Write (take k (chunks rs))"
    and P: "(k = length (chunks rs) \<and> length (concat (chunks rs)) \<le> n)
             \<or> (0 < k \<and> k \<le> length (chunks rs)
                 \<and> length (concat (take (k - 1) (chunks rs))) \<le> n
                 \<and> n < length (concat (take k (chunks rs))))"
    and b: "body (fst (io_Copy ?w rs)) = body ?w @ take n (concat (chunks rs))"
    by blast
  have c: "calls (resp (stream_handler m rs w)) =
            calls w @ [Call_Header_Set ''Content-Type'' m, Call_WriteHeader StatusOK]
              @ map Call_Write (take k (chunks rs))
              @ (if flusher w then [Call_Flush] else [])"
    using k by (simp add: stream_handler_copy Let_def)
  have b': "body (resp (stream_handler m rs w)) = body w @ take n (concat (chunks rs))"
    using b by (simp add: stream_handler_copy Let_def)
  from c P b' show ?thesis by blast
qed

lemma stream_handler_panicked:
  "panicked (stream_handler m rs w) = (\<not> flusher w)"
  by (simp add: stream_handler_copy Let_def)

text \<open>
  The condition on the number of writes leaves no choice: on a given connection and given data
  there is one number that meets it.
\<close>

lemma concat_take_mono:
  "j \<le> k \<Longrightarrow> length (concat (take j cs)) \<le> length (concat (take k cs))"
proof -
  assume "j \<le> k"
  then have "take k cs = take j cs @ take (k - j) (drop j cs)"
    by (metis le_add_diff_inverse take_add)
  then show ?thesis by simp
qed

lemma writes_unique:
  fixes cs :: "string list"
  assumes "(k = length cs \<and> length (concat cs) \<le> n)
           \<or> (0 < k \<and> k \<le> length cs \<and> length (concat (take (k - 1) cs)) \<le> n
               \<and> n < length (concat (take k cs)))"
    and "(k' = length cs \<and> length (concat cs) \<le> n)
           \<or> (0 < k' \<and> k' \<le> length cs \<and> length (concat (take (k' - 1) cs)) \<le> n
               \<and> n < length (concat (take k' cs)))"
  shows "k = k'"
proof -
  have full: "length (concat (take j cs)) \<le> length (concat cs)" for j
    using concat_take_mono [of j "max j (length cs)" cs] by simp
  have step: "a < b \<Longrightarrow> length (concat (take a cs)) \<le> length (concat (take (b - 1) cs))"
    for a b
    using concat_take_mono [of a "b - 1" cs] by simp
  show ?thesis
  proof (rule ccontr)
    assume "k \<noteq> k'"
    then consider "k < k'" | "k' < k" by linarith
    then show False
    proof cases
      case 1
      with assms full [of k] full [of k'] step [of k k'] show False by auto
    next
      case 2
      with assms full [of k] full [of k'] step [of k' k] show False by auto
    qed
  qed
qed

text \<open>When the pipes are there and the process starts, serving is the handler.\<close>

lemma ServeTranscode_started:
  assumes "StdoutPipe (encoder sm (makeStreamArgs p sm options)) = Inr stdout"
    and "StderrPipe (encoder sm (makeStreamArgs p sm options)) = Inr stderr"
    and "Start (encoder sm (makeStreamArgs p sm options)) = None"
  shows "served (ServeTranscode p sm w options)
           = stream_handler (MimeType (StreamType options)) stdout w"
    and "background (ServeTranscode p sm w options)
           = Some (stderr_goroutine (encoder sm (makeStreamArgs p sm options)) stderr)"
  using assms by (simp_all add: ServeTranscode_def getTranscodeStream_def Let_def)


text \<open>
  Claim C1, as the code has it. When the handler is obtained, serving sets \<open>Content-Type\<close> to
  the MIME type of the stream format and writes status 200, and these are what the response
  commits. Then it copies the standard output of the encoder to the response in order, one
  \<open>Write\<close> for each non-empty read before the first read error: all of them when the
  connection takes all the data, and otherwise those up to and including the first one that the
  connection does not take in full, and none after it. The body grows by exactly what the
  connection takes of that data. When the copy has ended, and only then, the handler asks for
  the flusher of the response: a response that has one is flushed once, and on one that has
  none the handler panics at that point.
\<close>

theorem ServeTranscode_streams:
  assumes "StdoutPipe (encoder sm (makeStreamArgs p sm options)) = Inr stdout"
    and "StderrPipe (encoder sm (makeStreamArgs p sm options)) = Inr stderr"
    and "Start (encoder sm (makeStreamArgs p sm options)) = None"
    and "status w = None"
  shows "sent_header (resp (served (ServeTranscode p sm w options))) ''Content-Type''
           = Some (MimeType (StreamType options))
       \<and> status (resp (served (ServeTranscode p sm w options))) = Some 200
       \<and> (\<exists>k. calls (resp (served (ServeTranscode p sm w options))) =
                calls w
                  @ [Call_Header_Set ''Content-Type'' (MimeType (StreamType options)),
                     Call_WriteHeader 200]
                  @ map Call_Write (take k (chunks stdout))
                  @ (if flusher w then [Call_Flush] else [])
              \<and> (case conn w of
                    None \<Rightarrow> k = length (chunks stdout)
                  | Some (n, e) \<Rightarrow>
                      (k = length (chunks stdout) \<and> length (concat (chunks stdout)) \<le> n)
                      \<or> (0 < k \<and> k \<le> length (chunks stdout)
                          \<and> length (concat (take (k - 1) (chunks stdout))) \<le> n
                          \<and> n < length (concat (take k (chunks stdout))))))
       \<and> body (resp (served (ServeTranscode p sm w options))) =
           body w @ (case conn w of
                       None \<Rightarrow> concat (chunks stdout)
                     | Some (n, e) \<Rightarrow> take n (concat (chunks stdout)))
       \<and> panicked (served (ServeTranscode p sm w options)) = (\<not> flusher w)"
proof -
  let ?m = "MimeType (StreamType options)"
  note started = ServeTranscode_started(1) [OF assms(1-3), of w]
  note st = stream_handler_status [OF assms(4), of ?m stdout]
  show ?thesis
  proof (cases "conn w")
    case None
    from stream_handler_conn_None [OF None, of ?m stdout]
    have "calls (resp (stream_handler ?m stdout w)) =
            calls w @ [Call_Header_Set ''Content-Type'' ?m, Call_WriteHeader StatusOK]
              @ map Call_Write (take (length (chunks stdout)) (chunks stdout))
              @ (if flusher w then [Call_Flush] else [])"
      and "body (resp (stream_handler ?m stdout w)) = body w @ concat (chunks stdout)"
      by simp_all
    with None started st stream_handler_panicked [of ?m stdout w] show ?thesis
      by (auto simp add: StatusOK_def)
  next
    case (Some ne)
    obtain n e where ne: "ne = (n, e)" by (cases ne)
    with Some have c: "conn w = Some (n, e)" by simp
    from stream_handler_conn_Some [OF c, of ?m stdout]
      c started st stream_handler_panicked [of ?m stdout w]
    show ?thesis
      by (simp add: StatusOK_def)
  qed
qed

text \<open>
  The two chunks \<open>ab\<close> and \<open>cd\<close> on a connection that takes everything, and on one that
  takes three bytes: there the second \<open>Write\<close> is the last, and the body is \<open>abc\<close>.
\<close>

theorem ServeTranscode_streams_witness:
  "sent_header (resp (served (ServeTranscode ffmpeg_cli example_sm new_response example_request)))
       ''Content-Type'' = Some ''video/mp4''
   \<and> status (resp (served (ServeTranscode ffmpeg_cli example_sm new_response example_request)))
       = Some 200
   \<and> calls (resp (served (ServeTranscode ffmpeg_cli example_sm new_response example_request)))
       = [Call_Header_Set ''Content-Type'' ''video/mp4'', Call_WriteHeader 200,
          Call_Write ''ab'', Call_Write ''cd'', Call_Flush]
   \<and> body (resp (served (ServeTranscode ffmpeg_cli example_sm new_response example_request)))
       = ''abcd''
   \<and> calls (resp (served (ServeTranscode ffmpeg_cli example_sm
                (new_response\<lparr>conn := Some (3, broken_pipe)\<rparr>) example_request)))
       = [Call_Header_Set ''Content-Type'' ''video/mp4'', Call_WriteHeader 200,
          Call_Write ''ab'', Call_Write ''cd'', Call_Flush]
   \<and> body (resp (served (ServeTranscode ffmpeg_cli example_sm
                (new_response\<lparr>conn := Some (3, broken_pipe)\<rparr>) example_request)))
       = ''abc''
   \<and> calls (resp (served (ServeTranscode ffmpeg_cli example_sm
                (new_response\<lparr>conn := Some (1, broken_pipe), flusher := False\<rparr>)
                example_request)))
       = [Call_Header_Set ''Content-Type'' ''video/mp4'', Call_WriteHeader 200,
          Call_Write ''ab'']
   \<and> body (resp (served (ServeTranscode ffmpeg_cli example_sm
                (new_response\<lparr>conn := Some (1, broken_pipe), flusher := False\<rparr>)
                example_request)))
       = ''a''
   \<and> panicked (served (ServeTranscode ffmpeg_cli example_sm
                (new_response\<lparr>conn := Some (1, broken_pipe), flusher := False\<rparr>)
                example_request))"
proof -
  let ?cmd = "encoder example_sm (makeStreamArgs ffmpeg_cli example_sm example_request)"
  let ?w3 = "new_response\<lparr>conn := Some (3, broken_pipe)\<rparr>"
  let ?w1 = "new_response\<lparr>conn := Some (1, broken_pipe), flusher := False\<rparr>"
  have h: "StdoutPipe ?cmd = Inr [Data ''ab'', Data ''cd'']" "StderrPipe ?cmd = Inr ''''"
    "Start ?cmd = None"
    by (simp_all add: example_sm_def example_encoder_def)
  have s: "status new_response = None" "status ?w3 = None" "status ?w1 = None"
    by (simp_all add: new_response_def)
  have m: "MimeType (StreamType example_request) = ''video/mp4''"
    by (simp add: example_request_def StreamTypeMP4_def ffmpeg_cli_def)
  have c3: "calls (resp (served (ServeTranscode ffmpeg_cli example_sm ?w3 example_request)))
       = [Call_Header_Set ''Content-Type'' ''video/mp4'', Call_WriteHeader 200,
          Call_Write ''ab'', Call_Write ''cd'', Call_Flush]"
    using ServeTranscode_started(1) [OF h, of ?w3]
    by (simp add: m stream_handler_copy new_response_def Write_def Let_def StatusOK_def)
  have c1: "calls (resp (served (ServeTranscode ffmpeg_cli example_sm ?w1 example_request)))
       = [Call_Header_Set ''Content-Type'' ''video/mp4'', Call_WriteHeader 200,
          Call_Write ''ab'']"
    using ServeTranscode_started(1) [OF h, of ?w1]
    by (simp add: m stream_handler_copy new_response_def Write_def Let_def StatusOK_def)
  show ?thesis
    using ServeTranscode_streams [OF h s(1)] ServeTranscode_streams [OF h s(2)]
      ServeTranscode_streams [OF h s(3)] c3 c1
    by (simp add: m new_response_def)
qed

text \<open>
  Against claim C1 as stated ("flushing the response after every write"): the encoder of the
  example writes two chunks; the two \<open>Write\<close>s follow each other, and the one \<open>Flush\<close> comes
  after the second.
\<close>

theorem ServeTranscode_streams_counterexample:
  "calls (resp (served (ServeTranscode ffmpeg_cli example_sm new_response example_request)))
       = [Call_Header_Set ''Content-Type'' ''video/mp4'', Call_WriteHeader 200,
          Call_Write ''ab'', Call_Write ''cd'', Call_Flush]
   \<and> \<not> spec_flush_after_every_write
         (calls (resp (served (ServeTranscode ffmpeg_cli example_sm new_response example_request))))"
proof -
  have "calls (resp (served (ServeTranscode ffmpeg_cli example_sm new_response example_request)))
       = [Call_Header_Set ''Content-Type'' ''video/mp4'', Call_WriteHeader 200,
          Call_Write ''ab'', Call_Write ''cd'', Call_Flush]"
    by (simp add: ServeTranscode_def getTranscodeStream_def example_sm_def example_encoder_def
        stream_handler_copy Write_def Let_def new_response_def example_request_def
        StreamTypeMP4_def ffmpeg_cli_def StatusOK_def)
  then show ?thesis by simp
qed

text \<open>
  Claim C2, as the code has it. The goroutine looks at two things only, the text of standard error
  and the error of \<open>Wait\<close>, and not at who ended the process. Text on standard error is the
  error and is logged, whatever the exit. With an empty standard error: an exit error of
  \<open>Wait\<close> (any non-zero exit, any kill) is dropped; any other error of \<open>Wait\<close> is logged;
  no error is success and nothing is logged.
\<close>

theorem stderr_goroutine_outcome:
  "stderr_goroutine cmd stderr =
     (if stderr \<noteq> ''''
      then [Errorf ''[transcode] ffmpeg error when running command <%s>: %v''
              [strings_Join (CmdArgs cmd) '' '', stderr]]
      else (case Wait cmd of
              None \<Rightarrow> []
            | Some e \<Rightarrow>
                if errors_As_ExitError e then []
                else [Errorf ''[transcode] ffmpeg error when running command <%s>: %v''
                        [strings_Join (CmdArgs cmd) '' '', Error e]]))"
  by (simp add: stderr_goroutine_def Let_def errors_New_def split: option.splits)

theorem stderr_goroutine_outcome_witness:
  "stderr_goroutine (example_encoder [''-i'', ''a'']) ''Conversion failed!'' =
     [Errorf ''[transcode] ffmpeg error when running command <%s>: %v''
        [''ffmpeg -i a'', ''Conversion failed!'']]
   \<and> stderr_goroutine (example_encoder [''-i'', ''a'']) '''' = []
   \<and> stderr_goroutine ((example_encoder [''-i'', ''a''])\<lparr>Wait := Some start_failure\<rparr>) '''' =
     [Errorf ''[transcode] ffmpeg error when running command <%s>: %v''
        [''ffmpeg -i a'', ''fork/exec /usr/bin/ffmpeg: no such file or directory'']]
   \<and> stderr_goroutine ((example_encoder [''-i'', ''a''])\<lparr>Wait := None\<rparr>) '''' = []"
  using stderr_goroutine_outcome [of "example_encoder [''-i'', ''a'']" "''Conversion failed!''"]
    stderr_goroutine_outcome [of "example_encoder [''-i'', ''a'']" "''''"]
    stderr_goroutine_outcome [of "(example_encoder [''-i'', ''a''])\<lparr>Wait := Some start_failure\<rparr>" "''''"]
    stderr_goroutine_outcome [of "(example_encoder [''-i'', ''a''])\<lparr>Wait := None\<rparr>" "''''"]
  by (simp add: example_encoder_def exit_status_1_def start_failure_def)

text \<open>
  Against claim C2 as stated. An encoder that ends by itself with exit status 1 and an empty
  standard error: the spec wants the exit error reported, the goroutine logs nothing. And an encoder
  that we killed after it wrote to standard error: the spec wants silence, the goroutine logs the
  text.
\<close>

theorem stderr_goroutine_counterexample:
  "spec_error (spec_classify False '''' (Wait (example_encoder []))) = Some ''exit status 1''
   \<and> logged_errors (stderr_goroutine (example_encoder []) '''') = []
   \<and> spec_error (spec_classify True ''Conversion failed!'' (Some signal_killed)) = None
   \<and> logged_errors (stderr_goroutine ((example_encoder [])\<lparr>Wait := Some signal_killed\<rparr>)
                       ''Conversion failed!'')
       = [''Conversion failed!'']"
  by (simp add: spec_classify_def stderr_goroutine_def example_encoder_def exit_status_1_def
      signal_killed_def errors_New_def Let_def)

text \<open>
  Claim C8. When the standard output pipe or the standard error pipe is not available, or the
  encoder does not start, serving writes status 400 and then the text of that error, and makes
  no other call on the response: the response commits 400, its body is the text of the error as
  far as the connection takes it (all of it on a connection that takes everything), nothing of
  the encoder's output is written, and no goroutine is started.
\<close>

theorem ServeTranscode_failure:
  assumes "StdoutPipe (encoder sm (makeStreamArgs p sm options)) = Inl err
           \<or> (\<exists>out. StdoutPipe (encoder sm (makeStreamArgs p sm options)) = Inr out
                \<and> StderrPipe (encoder sm (makeStreamArgs p sm options)) = Inl err)
           \<or> (\<exists>out errs. StdoutPipe (encoder sm (makeStreamArgs p sm options)) = Inr out
                \<and> StderrPipe (encoder sm (makeStreamArgs p sm options)) = Inr errs
                \<and> Start (encoder sm (makeStreamArgs p sm options)) = Some err)"
    and "status w = None"
  shows "calls (resp (served (ServeTranscode p sm w options)))
           = calls w @ [Call_WriteHeader 400, Call_Write (Error err)]
       \<and> status (resp (served (ServeTranscode p sm w options))) = Some 400
       \<and> (\<exists>n. body (resp (served (ServeTranscode p sm w options)))
                = body w @ take n (Error err))
       \<and> (conn w = None \<longrightarrow>
            body (resp (served (ServeTranscode p sm w options))) = body w @ Error err)
       \<and> background (ServeTranscode p sm w options) = None
       \<and> \<not> panicked (served (ServeTranscode p sm w options))"
proof -
  let ?s = "getTranscodeStream p sm options"
  let ?w = "WriteHeader w StatusBadRequest"
  have r: "result ?s = Inl err" and t: "goroutine_logs ?s = None"
    using assms(1) by (auto simp add: getTranscodeStream_def Let_def)
  have served: "resp (served (ServeTranscode p sm w options)) = fst (Write ?w (Error err))"
    and bg: "background (ServeTranscode p sm w options) = None"
    and np: "\<not> panicked (served (ServeTranscode p sm w options))"
    using r t by (simp_all add: ServeTranscode_def Let_def split_def)
  have st: "status ?w = Some 400" using assms(2) by (simp add: StatusBadRequest_def)
  have b: "\<exists>n. body (fst (Write ?w (Error err))) = body w @ take n (Error err)"
  proof (cases "snd (Write ?w (Error err))")
    case None
    then have "body (fst (Write ?w (Error err))) = body w @ take (length (Error err)) (Error err)"
      using Write_body_ok [of ?w "Error err"] by simp
    then show ?thesis by blast
  next
    case (Some e)
    then show ?thesis using Write_body_short [of ?w "Error err" e] by auto
  qed
  have full: "conn w = None \<longrightarrow> body (fst (Write ?w (Error err))) = body w @ Error err"
    using Write_conn_None [of ?w "Error err"] Write_body_ok [of ?w "Error err"] by simp
  show ?thesis
    using served bg np st b full by (simp add: StatusBadRequest_def)
qed

theorem ServeTranscode_failure_witness:
  "calls (resp (served (ServeTranscode ffmpeg_cli failing_sm new_response example_request)))
       = [Call_WriteHeader 400,
          Call_Write ''fork/exec /usr/bin/ffmpeg: no such file or directory'']
   \<and> status (resp (served (ServeTranscode ffmpeg_cli failing_sm new_response example_request)))
       = Some 400
   \<and> body (resp (served (ServeTranscode ffmpeg_cli failing_sm new_response example_request)))
       = ''fork/exec /usr/bin/ffmpeg: no such file or directory''
   \<and> background (ServeTranscode ffmpeg_cli failing_sm new_response example_request) = None"
proof -
  let ?cmd = "encoder failing_sm (makeStreamArgs ffmpeg_cli failing_sm example_request)"
  have "StdoutPipe ?cmd = Inr [Data ''ab'', Data ''cd''] \<and> StderrPipe ?cmd = Inr ''''
          \<and> Start ?cmd = Some start_failure"
    by (simp add: failing_sm_def example_encoder_def)
  then have h: "StdoutPipe ?cmd = Inl start_failure
           \<or> (\<exists>out. StdoutPipe ?cmd = Inr out \<and> StderrPipe ?cmd = Inl start_failure)
           \<or> (\<exists>out errs. StdoutPipe ?cmd = Inr out \<and> StderrPipe ?cmd = Inr errs
                \<and> Start ?cmd = Some start_failure)"
    by simp
  have s: "status new_response = None" by (simp add: new_response_def)
  show ?thesis
    using ServeTranscode_failure [OF h s]
    by (simp add: new_response_def start_failure_def)
qed

text \<open>
  Claim C9. When the copy of the standard output to the response fails, the handler logs the
  failure as an error unless the error is, or wraps, \<open>EPIPE\<close>; a broken pipe is not logged.
\<close>

theorem stream_handler_copy_failure:
  assumes "snd (io_Copy (WriteHeader (Header_Set w ''Content-Type'' mimeType) StatusOK) stdout)
             = Some e"
  shows "logs (stream_handler mimeType stdout w) =
           (if errors_Is e EPIPE then []
            else [Errorf ''[transcode] error serving transcoded video file: %v'' [Error e]])"
  using assms by (simp add: stream_handler_copy Let_def)

theorem stream_handler_copy_failure_witness:
  "snd (io_Copy (WriteHeader (Header_Set (new_response\<lparr>conn := Some (3, broken_pipe)\<rparr>)
                   ''Content-Type'' ''video/mp4'') StatusOK) [Data ''ab'', Data ''cd''])
     = Some broken_pipe
   \<and> errors_Is broken_pipe EPIPE
   \<and> logs (stream_handler ''video/mp4'' [Data ''ab'', Data ''cd'']
            (new_response\<lparr>conn := Some (3, broken_pipe)\<rparr>)) = []
   \<and> body (resp (stream_handler ''video/mp4'' [Data ''ab'', Data ''cd'']
            (new_response\<lparr>conn := Some (3, broken_pipe)\<rparr>))) = ''abc''"
proof -
  have h: "snd (io_Copy (WriteHeader (Header_Set (new_response\<lparr>conn := Some (3, broken_pipe)\<rparr>)
                   ''Content-Type'' ''video/mp4'') StatusOK) [Data ''ab'', Data ''cd''])
     = Some broken_pipe"
    by (simp add: new_response_def Write_def Let_def)
  have b: "body (resp (stream_handler ''video/mp4'' [Data ''ab'', Data ''cd'']
            (new_response\<lparr>conn := Some (3, broken_pipe)\<rparr>))) = ''abc''"
    by (simp add: stream_handler_copy new_response_def Write_def Let_def)
  have e: "errors_Is broken_pipe EPIPE"
    by (simp add: broken_pipe_def EPIPE_def)
  show ?thesis
    using stream_handler_copy_failure [OF h] h b e by simp
qed

text \<open>A connection reset, which is no \<open>EPIPE\<close>, is logged.\<close>

lemma stream_handler_connection_reset:
  "logs (stream_handler ''video/mp4'' [Data ''ab'', Data ''cd'']
            (new_response\<lparr>conn := Some (3, connection_reset)\<rparr>)) =
     [Errorf ''[transcode] error serving transcoded video file: %v''
        [''write tcp 127.0.0.1:9999: write: connection reset by peer'']]"
  by (simp add: stream_handler_copy new_response_def Write_def Let_def connection_reset_def
      EPIPE_def)

text \<open>
  Claim C10. When the encoder has started and the handler runs on a response that has nothing
  committed and an empty body, the response commits status 200 and the \<open>Content-Type\<close> of the
  format; after the calls that set these, the handler only writes and flushes; the body is an
  initial part of the encoder's output, so a failure shows as a cut stream and never as an error
  text; and neither the error of \<open>Wait\<close> nor the content of standard error has any influence
  on the response or on the log of the request's goroutine: they reach the log of the other goroutine
  only.
\<close>

theorem ServeTranscode_committed:
  assumes "StdoutPipe (encoder sm (makeStreamArgs p sm options)) = Inr stdout"
    and "StderrPipe (encoder sm (makeStreamArgs p sm options)) = Inr stderr"
    and "Start (encoder sm (makeStreamArgs p sm options)) = None"
    and "status w = None"
    and "body w = []"
  shows "status (resp (served (ServeTranscode p sm w options))) = Some 200
       \<and> sent_header (resp (served (ServeTranscode p sm w options))) ''Content-Type''
           = Some (MimeType (StreamType options))
       \<and> (\<exists>cs. calls (resp (served (ServeTranscode p sm w options))) =
                 calls w
                   @ [Call_Header_Set ''Content-Type'' (MimeType (StreamType options)),
                      Call_WriteHeader 200]
                   @ cs
               \<and> set cs \<subseteq> range Call_Write \<union> {Call_Flush})
       \<and> (\<exists>n. body (resp (served (ServeTranscode p sm w options)))
                = take n (concat (chunks stdout)))
       \<and> (\<forall>exit_error errs.
            served (ServeTranscode p
                      (sm\<lparr>encoder := (\<lambda>a. (encoder sm a)\<lparr>StderrPipe := Inr errs,
                                                             Wait := exit_error\<rparr>)\<rparr>)
                      w options)
              = served (ServeTranscode p sm w options))
       \<and> background (ServeTranscode p sm w options)
           = Some (stderr_goroutine (encoder sm (makeStreamArgs p sm options)) stderr)"
proof -
  let ?m = "MimeType (StreamType options)"
  note started = ServeTranscode_started [OF assms(1-3), of w]
  obtain k where k: "calls (resp (stream_handler ?m stdout w)) =
     calls w @ [Call_Header_Set ''Content-Type'' ?m, Call_WriteHeader StatusOK]
       @ map Call_Write (take k (chunks stdout))
       @ (if flusher w then [Call_Flush] else [])"
    using stream_handler_calls [of ?m stdout w] by blast
  let ?cs = "map Call_Write (take k (chunks stdout)) @ (if flusher w then [Call_Flush] else [])"
  have cs: "set ?cs \<subseteq> range Call_Write \<union> {Call_Flush}"
    by auto
  have calls: "\<exists>cs. calls (resp (served (ServeTranscode p sm w options))) =
                 calls w @ [Call_Header_Set ''Content-Type'' ?m, Call_WriteHeader 200] @ cs
               \<and> set cs \<subseteq> range Call_Write \<union> {Call_Flush}"
    using k cs started(1) by (intro exI [of _ ?cs]) (simp add: StatusOK_def)
  have body: "\<exists>n. body (resp (served (ServeTranscode p sm w options)))
                = take n (concat (chunks stdout))"
    using stream_handler_body [of ?m stdout w] assms(5) started(1) by simp
  have indep: "served (ServeTranscode p
                      (sm\<lparr>encoder := (\<lambda>a. (encoder sm a)\<lparr>StderrPipe := Inr errs,
                                                             Wait := exit_error\<rparr>)\<rparr>)
                      w options)
              = served (ServeTranscode p sm w options)" for exit_error errs
    using assms(1-3) by (simp add: ServeTranscode_def getTranscodeStream_def Let_def)
  show ?thesis
    using stream_handler_status [OF assms(4), of ?m stdout] started calls body indep
    by (simp add: StatusOK_def)
qed

theorem ServeTranscode_committed_witness:
  "status (resp (served (ServeTranscode ffmpeg_cli example_sm
             (new_response\<lparr>conn := Some (3, connection_reset)\<rparr>) example_request))) = Some 200
   \<and> sent_header (resp (served (ServeTranscode ffmpeg_cli example_sm
             (new_response\<lparr>conn := Some (3, connection_reset)\<rparr>) example_request)))
         ''Content-Type'' = Some ''video/mp4''
   \<and> body (resp (served (ServeTranscode ffmpeg_cli example_sm
             (new_response\<lparr>conn := Some (3, connection_reset)\<rparr>) example_request))) = ''abc''
   \<and> background (ServeTranscode ffmpeg_cli example_sm
             (new_response\<lparr>conn := Some (3, connection_reset)\<rparr>) example_request) = Some []"
proof -
  let ?w = "new_response\<lparr>conn := Some (3, connection_reset)\<rparr>"
  let ?cmd = "encoder example_sm (makeStreamArgs ffmpeg_cli example_sm example_request)"
  have h: "StdoutPipe ?cmd = Inr [Data ''ab'', Data ''cd'']" "StderrPipe ?cmd = Inr ''''"
    "Start ?cmd = None" "status ?w = None" "body ?w = []"
    by (simp_all add: example_sm_def example_encoder_def new_response_def)
  have m: "MimeType (StreamType example_request) = ''video/mp4''"
    by (simp add: example_request_def StreamTypeMP4_def ffmpeg_cli_def)
  have b: "body (resp (served (ServeTranscode ffmpeg_cli example_sm ?w example_request))) = ''abc''"
    using ServeTranscode_started(1) [OF h(1-3), of ?w]
    by (simp add: stream_handler_copy new_response_def Write_def Let_def)
  have g: "stderr_goroutine ?cmd '''' = []"
    by (simp add: stderr_goroutine_def example_sm_def example_encoder_def exit_status_1_def
        Let_def)
  show ?thesis
    using ServeTranscode_committed [OF h] b g by (simp add: m)
qed


end
